theory Spec2Isabelle
  imports Main "HOL-Library.Word" "HOL-Library.Sublist" "HOL-Library.AList"
    "HOL-Library.Char_ord" "HOL-Library.List_Lexorder"
begin

unbundle bit_operations_syntax

section \<open>Library functions the translate package calls\<close>

subsection \<open>crypto/sha256 and encoding/hex\<close>

text \<open>
  Go strings are byte sequences: \<^typ>\<open>string\<close> (a \<^typ>\<open>char list\<close>) with \<open>length\<close>
  counting bytes, as Go's \<open>len\<close> does. \<open>sha256.Sum256\<close> is the FIPS 180-4 function
  on the bytes of the string, returning the 32 bytes of the digest.
\<close>

type_synonym byte = "8 word"
type_synonym u32 = "32 word"

definition bytes_of :: "string \<Rightarrow> byte list" where
  "bytes_of s = map (\<lambda>c. (of_char c :: byte)) s"

text \<open>The round constants, eight rounds to a row.\<close>

definition K256_row0 :: "u32 list" where
  "K256_row0 =
     [0x428a2f98, 0x71374491, 0xb5c0fbcf, 0xe9b5dba5,
      0x3956c25b, 0x59f111f1, 0x923f82a4, 0xab1c5ed5]"

definition K256_row1 :: "u32 list" where
  "K256_row1 =
     [0xd807aa98, 0x12835b01, 0x243185be, 0x550c7dc3,
      0x72be5d74, 0x80deb1fe, 0x9bdc06a7, 0xc19bf174]"

definition K256_row2 :: "u32 list" where
  "K256_row2 =
     [0xe49b69c1, 0xefbe4786, 0x0fc19dc6, 0x240ca1cc,
      0x2de92c6f, 0x4a7484aa, 0x5cb0a9dc, 0x76f988da]"

definition K256_row3 :: "u32 list" where
  "K256_row3 =
     [0x983e5152, 0xa831c66d, 0xb00327c8, 0xbf597fc7,
      0xc6e00bf3, 0xd5a79147, 0x06ca6351, 0x14292967]"

definition K256_row4 :: "u32 list" where
  "K256_row4 =
     [0x27b70a85, 0x2e1b2138, 0x4d2c6dfc, 0x53380d13,
      0x650a7354, 0x766a0abb, 0x81c2c92e, 0x92722c85]"

definition K256_row5 :: "u32 list" where
  "K256_row5 =
     [0xa2bfe8a1, 0xa81a664b, 0xc24b8b70, 0xc76c51a3,
      0xd192e819, 0xd6990624, 0xf40e3585, 0x106aa070]"

definition K256_row6 :: "u32 list" where
  "K256_row6 =
     [0x19a4c116, 0x1e376c08, 0x2748774c, 0x34b0bcb5,
      0x391c0cb3, 0x4ed8aa4a, 0x5b9cca4f, 0x682e6ff3]"

definition K256_row7 :: "u32 list" where
  "K256_row7 =
     [0x748f82ee, 0x78a5636f, 0x84c87814, 0x8cc70208,
      0x90befffa, 0xa4506ceb, 0xbef9a3f7, 0xc67178f2]"

definition K256 :: "u32 list" where
  "K256 = concat [K256_row0, K256_row1, K256_row2, K256_row3,
                  K256_row4, K256_row5, K256_row6, K256_row7]"

definition H256 :: "u32 list" where
  "H256 = [0x6a09e667, 0xbb67ae85, 0x3c6ef372, 0xa54ff53a,
           0x510e527f, 0x9b05688c, 0x1f83d9ab, 0x5be0cd19]"

definition rotr :: "nat \<Rightarrow> u32 \<Rightarrow> u32" where
  "rotr n x = (drop_bit n x) OR (push_bit (32 - n) x)"

definition be32 :: "byte list \<Rightarrow> u32" where
  "be32 bs = foldl (\<lambda>acc b. push_bit 8 acc OR ucast b) 0 (take 4 bs)"

definition be_bytes :: "nat \<Rightarrow> 64 word \<Rightarrow> byte list" where
  "be_bytes n v = map (\<lambda>i. ucast (drop_bit (8 * (n - 1 - i)) v)) [0..<n]"

definition pad :: "byte list \<Rightarrow> byte list" where
  "pad m = m @ [0x80] @ replicate ((119 - length m mod 64) mod 64) 0
             @ be_bytes 8 (of_nat (8 * length m))"

fun chunks :: "nat \<Rightarrow> nat \<Rightarrow> 'a list \<Rightarrow> 'a list list" where
  "chunks 0 k xs = []"
| "chunks (Suc n) k xs = take k xs # chunks n k (drop k xs)"

text \<open>The message schedule: the next word from the last sixteen.\<close>

definition next_word :: "u32 list \<Rightarrow> u32" where
  "next_word w =
    (let t = length w;
         w15 = w ! (t - 15); w2 = w ! (t - 2);
         s0 = rotr 7 w15 XOR rotr 18 w15 XOR drop_bit 3 w15;
         s1 = rotr 17 w2 XOR rotr 19 w2 XOR drop_bit 10 w2
     in w ! (t - 16) + s0 + w ! (t - 7) + s1)"

fun schedule :: "nat \<Rightarrow> u32 list \<Rightarrow> u32 list" where
  "schedule 0 w = w"
| "schedule (Suc n) w = schedule n (w @ [next_word w])"

fun round256 :: "u32 list \<Rightarrow> u32 \<times> u32 \<Rightarrow> u32 list" where
  "round256 [a, b, c, d, e, f, g, h] (k, w) =
    (let S1 = rotr 6 e XOR rotr 11 e XOR rotr 25 e;
         ch = (e AND f) XOR (NOT e AND g);
         t1 = h + S1 + ch + k + w;
         S0 = rotr 2 a XOR rotr 13 a XOR rotr 22 a;
         maj = (a AND b) XOR (a AND c) XOR (b AND c);
         t2 = S0 + maj
     in [t1 + t2, a, b, c, d + t1, e, f, g])"
| "round256 st kw = st"

definition block256 :: "u32 list \<Rightarrow> byte list \<Rightarrow> u32 list" where
  "block256 hs blk =
    (let w = schedule 48 (map be32 (chunks 16 4 blk))
     in map2 (+) hs (foldl round256 hs (zip K256 w)))"

definition Sum256 :: "string \<Rightarrow> byte list" where
  "Sum256 s =
    (let p = pad (bytes_of s)
     in concat (map (\<lambda>h. be_bytes 4 (ucast h))
                  (foldl block256 H256 (chunks (length p div 64) 64 p))))"

definition hextable :: string where
  "hextable = ''0123456789abcdef''"

definition EncodeToString :: "byte list \<Rightarrow> string" where
  "EncodeToString bs =
     concat (map (\<lambda>b. [hextable ! unat (drop_bit 4 b), hextable ! unat (b AND 0x0f)]) bs)"

subsection \<open>Package strings\<close>

text \<open>\<open>strings.Join(elems, sep)\<close>.\<close>

fun Join :: "string list \<Rightarrow> string \<Rightarrow> string" where
  "Join [] sep = []"
| "Join [x] sep = x"
| "Join (x # y # ys) sep = x @ sep @ Join (y # ys) sep"

text \<open>\<open>strings.HasPrefix(s, p)\<close> is \<^term>\<open>prefix p s\<close>; \<open>strings.Contains(s, sub)\<close>:\<close>

fun Contains :: "string \<Rightarrow> string \<Rightarrow> bool" where
  "Contains [] sub = (sub = [])"
| "Contains (c # cs) sub = (prefix sub (c # cs) \<or> Contains cs sub)"

text \<open>
  \<open>strings.ReplaceAll(s, old, new)\<close> for a non-empty \<open>old\<close>: the non-overlapping
  occurrences of \<open>old\<close> are replaced from left to right, in one pass. The package only
  calls it with \<open>old = ".-"\<close>; Go's rule for an empty \<open>old\<close> (an insertion at every rune
  boundary) is not needed and an empty \<open>old\<close> leaves \<open>s\<close> as it is here.
\<close>

function ReplaceAll :: "string \<Rightarrow> string \<Rightarrow> string \<Rightarrow> string" where
  "ReplaceAll [] old new = []"
| "ReplaceAll (c # cs) old new =
     (if old \<noteq> [] \<and> prefix old (c # cs)
      then new @ ReplaceAll (drop (length old) (c # cs)) old new
      else c # ReplaceAll cs old new)"
  by pat_completeness auto
termination
  by (relation "measure (\<lambda>(s, old, new). length s)") (auto simp: neq_Nil_conv)

text \<open>
  \<open>strings.Split(s, sep)\<close> for a non-empty \<open>sep\<close>: the pieces between the occurrences
  of \<open>sep\<close>, found from left to right; \<open>cur\<close> is the piece being read. The package only
  splits at a newline, and an empty \<open>sep\<close> (Go: one piece per rune) gives the one piece
  \<open>s\<close> here.
\<close>

function strings_Split_from :: "string \<Rightarrow> string \<Rightarrow> string \<Rightarrow> string list" where
  "strings_Split_from cur [] sep = [cur]"
| "strings_Split_from cur (c # cs) sep =
     (if sep \<noteq> [] \<and> prefix sep (c # cs)
      then cur # strings_Split_from [] (drop (length sep) (c # cs)) sep
      else strings_Split_from (cur @ [c]) cs sep)"
  by pat_completeness auto
termination
  by (relation "measure (\<lambda>(cur, s, sep). length s)") (auto simp: neq_Nil_conv)

definition strings_Split :: "string \<Rightarrow> string \<Rightarrow> string list" where
  "strings_Split s sep = strings_Split_from [] s sep"

subsection \<open>Maps\<close>

text \<open>
  A Go \<open>map[string]string\<close> is \<open>nil\<close> (\<open>None\<close>) or a table, given by its entries (keys
  distinct) in the order in which a \<open>range\<close> loop visits them; Go leaves that order
  open. A \<open>nil\<close> map reads as empty: ranging over it visits nothing and indexing it
  gives the empty string.
\<close>

type_synonym table = "(string \<times> string) list"
type_synonym gomap = "table option"

definition entries :: "gomap \<Rightarrow> table" where
  "entries m = (case m of None \<Rightarrow> [] | Some kvs \<Rightarrow> kvs)"

definition index :: "gomap \<Rightarrow> string \<Rightarrow> string" where
  "index m k = (case map_of (entries m) k of None \<Rightarrow> [] | Some v \<Rightarrow> v)"

text \<open>
  \<open>m[k] = v\<close> on a table is \<^term>\<open>AList.update k v m\<close>, \<open>delete(m, k)\<close> is
  \<^term>\<open>AList.delete k m\<close>, and \<open>_, ok := m[k]\<close> is \<^term>\<open>map_of m k \<noteq> None\<close>.
  \<open>maps.Copy(dst, src)\<close>:
\<close>

definition maps_Copy :: "table \<Rightarrow> gomap \<Rightarrow> table" where
  "maps_Copy dst src = foldl (\<lambda>d (k, v). AList.update k v d) dst (entries src)"

subsection \<open>Objects\<close>

text \<open>
  Of a \<open>client.Object\<close> the functions here read the name, the namespace, the unique
  identifier, the type (API version and kind), the labels, the annotations and the
  owner references. A pointer field (\<open>*bool\<close>) is an option.
\<close>

record OwnerReference =
  APIVersion :: string
  Kind :: string
  Name :: string
  UID :: string
  Controller :: "bool option"
  BlockOwnerDeletion :: "bool option"

record Object =
  objAPIVersion :: string
  objKind :: string
  objName :: string
  objNamespace :: string
  objUID :: string
  objLabels :: gomap
  objAnnotations :: gomap
  objOwnerReferences :: "OwnerReference list"

text \<open>
  \<open>metav1.GetControllerOf\<close>: the first owner reference whose \<open>Controller\<close> pointer is set
  and points to \<open>true\<close>.
\<close>

fun GetControllerOf_refs :: "OwnerReference list \<Rightarrow> OwnerReference option" where
  "GetControllerOf_refs [] = None"
| "GetControllerOf_refs (r # refs) =
     (if Controller r \<noteq> None \<and> the (Controller r) then Some r else GetControllerOf_refs refs)"

definition GetControllerOf :: "Object \<Rightarrow> OwnerReference option" where
  "GetControllerOf controllee = GetControllerOf_refs (objOwnerReferences controllee)"

subsection \<open>Names of the package that are declared in its other files\<close>

text \<open>
  The package-level variable \<open>VClusterName\<close> and the key constants are declared in
  other files of the package; every function below takes their values as the
  parameter \<open>P\<close>, so that each result holds for whatever they are set to.
\<close>

record package =
  VClusterName :: string
  LabelPrefix :: string
  MarkerLabel :: string
  NamespaceLabel :: string
  ControllerLabel :: string
  NamespaceLabelPrefix :: string
  ManagedAnnotationsAnnotation :: string
  ManagedLabelsAnnotation :: string

subsection \<open>The sync context\<close>

text \<open>
  A \<open>*synccontext.SyncContext\<close> is a pointer (\<open>None\<close> is \<open>nil\<close>) to the state the
  translator reads and writes: the configured always-synced label keys, the
  administrator's namespace pins, and the mapping store (\<open>None\<close> when
  \<open>ctx.Mappings\<close> or \<open>ctx.Mappings.Store()\<close> is \<open>nil\<close>), of which only the
  host-to-virtual table of cluster-scoped label keys is read here.
\<close>

record SyncContext =
  SyncLabels :: "string list"
  NamespaceMappings :: "string \<rightharpoonup> string"
  Store :: "(string \<rightharpoonup> string) option"

type_synonym ctx = "SyncContext option"

text \<open>
  Modelled from the spec: \<open>pro.VirtualNamespaceMatchesMapping\<close>, of the package
  \<open>pro\<close>, whose source is missing. It is the namespace-mapping override
  \<open>VirtualNamespaceOverride(virtualNamespace) -> (hostNamespace, found)\<close> of the
  administrator-declared virtual-to-host namespace pins.
\<close>

definition VirtualNamespaceMatchesMapping :: "ctx \<Rightarrow> string \<Rightarrow> string \<times> bool" where
  "VirtualNamespaceMatchesMapping c vNamespace =
     (case c of
        None \<Rightarrow> ([], False)
      | Some sc \<Rightarrow>
          (case NamespaceMappings sc vNamespace of
             None \<Rightarrow> ([], False)
           | Some pNamespace \<Rightarrow> (pNamespace, True)))"

text \<open>
  Modelled from the spec: \<open>keyMatchesSyncedLabels\<close>, whose source is missing. A key
  matches when it is one of the small set of always-synced labels of the configuration.
\<close>

definition keyMatchesSyncedLabels :: "ctx \<Rightarrow> string \<Rightarrow> bool" where
  "keyMatchesSyncedLabels c key =
     (case c of None \<Rightarrow> False | Some sc \<Rightarrow> key \<in> set (SyncLabels sc))"

text \<open>
  Modelled from the spec: \<open>recordLabelCluster\<close> and the store, whose sources are
  missing. Recording is \<open>RecordForwardKey(direction, sourceKey, derivedKey)\<close>: the table
  from host key to virtual key gets the pair, the last write winning; without a store
  nothing is recorded. The forward translation is the only place where new store
  entries are created, and the reverse translation calls \<open>recordLabelCluster\<close> too,
  with an empty virtual key when it found none: a pair with an empty key is not
  recorded.
\<close>

definition recordLabelCluster :: "ctx \<Rightarrow> string \<Rightarrow> string \<Rightarrow> ctx" where
  "recordLabelCluster c virtualLabel hostLabel =
     (case c of
        None \<Rightarrow> None
      | Some sc \<Rightarrow>
          (case Store sc of
             None \<Rightarrow> Some sc
           | Some tbl \<Rightarrow>
               if virtualLabel = [] \<or> hostLabel = [] then Some sc
               else Some (sc\<lparr>Store := Some (tbl(hostLabel \<mapsto> virtualLabel))\<rparr>)))"

text \<open>
  Modelled from the spec: the store's \<open>HostToVirtualLabelCluster\<close>, whose source is
  missing. It is \<open>LookupReverseKey(direction, hostKey) -> (virtualKey, found)\<close> on the
  table.
\<close>

definition HostToVirtualLabelCluster :: "(string \<rightharpoonup> string) \<Rightarrow> string \<Rightarrow> string \<times> bool" where
  "HostToVirtualLabelCluster tbl pLabel =
     (case tbl pLabel of None \<Rightarrow> ([], False) | Some vLabel \<Rightarrow> (vLabel, True))"

section \<open>Naming engine\<close>

text \<open>\<open>SafeConcatName\<close> (variadic in Go: the arguments are the list \<open>name\<close>).\<close>

definition SafeConcatName :: "string list \<Rightarrow> string" where
  "SafeConcatName name =
     (let fullPath = Join name ''-'' in
      if length fullPath > 63
      then ReplaceAll (take 52 fullPath @ ''-'' @ take 10 (EncodeToString (Sum256 fullPath)))
             ''.-'' ''-''
      else fullPath)"

section \<open>The multi-namespace translator\<close>

record multiNamespace =
  currentNamespace :: string

definition NewMultiNamespaceTranslator :: "string \<Rightarrow> multiNamespace" where
  "NewMultiNamespaceTranslator cur = \<lparr>currentNamespace = cur\<rparr>"

definition SingleNamespaceTarget :: "multiNamespace \<Rightarrow> bool" where
  "SingleNamespaceTarget s = False"

definition HostNameCluster :: "package \<Rightarrow> multiNamespace \<Rightarrow> string \<Rightarrow> string" where
  "HostNameCluster P s name =
     (if name = [] then []
      else SafeConcatName [''vcluster'', name, ''x'', currentNamespace s, ''x'', VClusterName P])"

definition getNamespacePrefix :: "multiNamespace \<Rightarrow> string" where
  "getNamespacePrefix s = ''vcluster''"

definition getNamespaceSuffix :: "string \<Rightarrow> string \<Rightarrow> string" where
  "getNamespaceSuffix cur suf = take 8 (EncodeToString (Sum256 (cur @ ''x'' @ suf)))"

text \<open>\<open>fmt.Sprintf("%s-%s-%s", ...)\<close> of three strings is their join with \<open>-\<close>.\<close>

definition hostNamespace :: "string \<Rightarrow> string \<Rightarrow> string \<Rightarrow> string \<Rightarrow> string" where
  "hostNamespace cur vNamespace pre suf =
     pre @ ''-'' @ take 8 (EncodeToString (Sum256 vNamespace)) @ ''-''
       @ getNamespaceSuffix cur suf"

definition HostNamespace :: "package \<Rightarrow> multiNamespace \<Rightarrow> ctx \<Rightarrow> string \<Rightarrow> string" where
  "HostNamespace P s c vNamespace =
     (case VirtualNamespaceMatchesMapping c vNamespace of
        (pNamespace, True) \<Rightarrow> pNamespace
      | (_, False) \<Rightarrow>
          hostNamespace (currentNamespace s) vNamespace (getNamespacePrefix s) (VClusterName P))"

definition MarkerLabelCluster :: "package \<Rightarrow> multiNamespace \<Rightarrow> string" where
  "MarkerLabelCluster P s = SafeConcatName [currentNamespace s, ''x'', VClusterName P]"

definition hostLabelCluster :: "package \<Rightarrow> string \<Rightarrow> string \<Rightarrow> string" where
  "hostLabelCluster P key vClusterNamespace =
     SafeConcatName [LabelPrefix P, vClusterNamespace, ''x'', VClusterName P, ''x'',
                     take 10 (EncodeToString (Sum256 key))]"

text \<open>
  \<open>VirtualLabelCluster\<close> and \<open>HostLabelCluster\<close> write to the store behind \<open>ctx\<close> in a
  deferred call, which runs with the values being returned: each returns its result
  and the context after the call.
\<close>

definition VirtualLabelCluster ::
  "package \<Rightarrow> multiNamespace \<Rightarrow> ctx \<Rightarrow> string \<Rightarrow> (string \<times> bool) \<times> ctx" where
  "VirtualLabelCluster P s c pLabel =
     (if keyMatchesSyncedLabels c pLabel then ((pLabel, True), c)
      else if \<not> prefix (LabelPrefix P) pLabel then ((pLabel, True), c)
      else
        (let ret =
           (case c of
              None \<Rightarrow> ([], False)
            | Some sc \<Rightarrow>
                (case Store sc of
                   None \<Rightarrow> ([], False)
                 | Some tbl \<Rightarrow>
                     (case HostToVirtualLabelCluster tbl pLabel of
                        (vLabel, True) \<Rightarrow> (vLabel, True)
                      | (_, False) \<Rightarrow> ([], False))))
         in (ret, recordLabelCluster c (fst ret) pLabel)))"

definition HostLabelCluster ::
  "package \<Rightarrow> multiNamespace \<Rightarrow> ctx \<Rightarrow> string \<Rightarrow> string \<times> ctx" where
  "HostLabelCluster P s c key =
     (if keyMatchesSyncedLabels c key then (key, c)
      else
        (let retLabel = hostLabelCluster P key (currentNamespace s)
         in (retLabel, recordLabelCluster c key retLabel)))"

definition VirtualLabel ::
  "multiNamespace \<Rightarrow> ctx \<Rightarrow> string \<Rightarrow> string \<Rightarrow> (string \<times> bool) \<times> ctx" where
  "VirtualLabel s c pLabel vNamespace = ((pLabel, True), c)"

definition HostLabel :: "multiNamespace \<Rightarrow> ctx \<Rightarrow> string \<Rightarrow> string \<Rightarrow> string \<times> ctx" where
  "HostLabel s c vLabel vNamespace = (vLabel, c)"

section \<open>Helpers of the package\<close>

fun exists :: "string list \<Rightarrow> string \<Rightarrow> bool" where
  "exists [] k = False"
| "exists (i # a) k = (if i = k then True else exists a k)"

section \<open>Ownership reference builder\<close>

text \<open>
  \<open>GetOwnerReference\<close> reads the package variable \<open>Owner\<close> (a \<open>client.Object\<close>, \<open>None\<close>
  for \<open>nil\<close>), here its first argument. \<open>meta.TypeAccessor\<close> gives the accessor of
  every \<open>runtime.Object\<close> and an error for other values only, so on the \<open>client.Object\<close>
  \<open>Owner\<close> its error is \<open>nil\<close>. The \<open>nil\<close> slice returned is the empty list.
\<close>

definition GetOwnerReference :: "Object option \<Rightarrow> Object option \<Rightarrow> OwnerReference list" where
  "GetOwnerReference Owner object =
     (case Owner of
        None \<Rightarrow> []
      | Some owner \<Rightarrow>
          if objName owner = [] \<or> objUID owner = [] then []
          else if objAPIVersion owner = [] \<or> objKind owner = [] then []
          else
            (let isController =
               (case object of None \<Rightarrow> False | Some ob \<Rightarrow> GetControllerOf ob \<noteq> None)
             in [\<lparr>APIVersion = objAPIVersion owner,
                  Kind = objKind owner,
                  Name = objName owner,
                  UID = objUID owner,
                  Controller = Some isController,
                  BlockOwnerDeletion = None\<rparr>]))"

section \<open>Metadata merge engine\<close>

record ApplyMapsOptions =
  ManagedKeys :: "string list"
  ExcludeKeys :: "string list"

text \<open>The first loop of \<open>applyMaps\<close>, over the entries of \<open>fromMap\<close>.\<close>

fun applyMaps_from ::
  "ApplyMapsOptions \<Rightarrow> table \<Rightarrow> table \<times> string list \<Rightarrow> table \<times> string list" where
  "applyMaps_from opts [] (retMap, managedKeys) = (retMap, managedKeys)"
| "applyMaps_from opts ((k, v) # rest) (retMap, managedKeys) =
     (if exists (ExcludeKeys opts) k then applyMaps_from opts rest (retMap, managedKeys)
      else applyMaps_from opts rest (AList.update k v retMap, managedKeys @ [k]))"

text \<open>The second loop, over the entries of \<open>toMap\<close>.\<close>

fun applyMaps_to :: "ApplyMapsOptions \<Rightarrow> string list \<Rightarrow> table \<Rightarrow> table \<Rightarrow> table" where
  "applyMaps_to opts managedKeys [] retMap = retMap"
| "applyMaps_to opts managedKeys ((key, val) # rest) retMap =
     (if exists (ExcludeKeys opts) key
      then applyMaps_to opts managedKeys rest (AList.update key val retMap)
      else if exists managedKeys key \<or> exists (ManagedKeys opts) key
      then applyMaps_to opts managedKeys rest retMap
      else applyMaps_to opts managedKeys rest (AList.update key val retMap))"

text \<open>\<open>sort.Strings\<close> orders strings bytewise, as the order on \<^typ>\<open>string\<close> does.\<close>

definition applyMaps :: "gomap \<Rightarrow> gomap \<Rightarrow> ApplyMapsOptions \<Rightarrow> table \<times> string" where
  "applyMaps fromMap toMap opts =
     (let (retMap, managedKeys) = applyMaps_from opts (entries fromMap) ([], []);
          retMap = applyMaps_to opts managedKeys (entries toMap) retMap;
          managedKeys = sort managedKeys;
          managedKeysStr = Join managedKeys [CHR 0x0A]
      in (retMap, managedKeysStr))"

definition applyAnnotations :: "package \<Rightarrow> gomap \<Rightarrow> gomap \<Rightarrow> string list \<Rightarrow> table" where
  "applyAnnotations P fromAnnotations toAnnotations excludeAnnotations =
     (let toAnnotations = (if toAnnotations = None then Some [] else toAnnotations);
          excludedKeys = [ManagedAnnotationsAnnotation P, ManagedLabelsAnnotation P];
          excludedKeys = excludedKeys @ excludeAnnotations;
          (mergedAnnotations, managedKeys) =
            applyMaps fromAnnotations toAnnotations
              \<lparr>ManagedKeys =
                 strings_Split (index toAnnotations (ManagedAnnotationsAnnotation P)) [CHR 0x0A],
               ExcludeKeys = excludedKeys\<rparr>
      in if managedKeys = []
         then AList.delete (ManagedAnnotationsAnnotation P) mergedAnnotations
         else AList.update (ManagedAnnotationsAnnotation P) managedKeys mergedAnnotations)"

definition applyLabels :: "package \<Rightarrow> gomap \<Rightarrow> gomap \<Rightarrow> gomap \<Rightarrow> table \<times> table" where
  "applyLabels P fromLabels toLabels toAnnotations =
     (let toAnnotations = (if toAnnotations = None then Some [] else toAnnotations);
          (mergedLabels, managedKeys) =
            applyMaps fromLabels toLabels
              \<lparr>ManagedKeys =
                 strings_Split (index toAnnotations (ManagedLabelsAnnotation P)) [CHR 0x0A],
               ExcludeKeys = [ManagedAnnotationsAnnotation P, ManagedLabelsAnnotation P]\<rparr>;
          mergedAnnotations = maps_Copy [] toAnnotations
      in if managedKeys = []
         then (mergedLabels, AList.delete (ManagedLabelsAnnotation P) mergedAnnotations)
         else (mergedLabels, AList.update (ManagedLabelsAnnotation P) managedKeys mergedAnnotations))"

definition ApplyMetadata ::
  "package \<Rightarrow> gomap \<Rightarrow> gomap \<Rightarrow> gomap \<Rightarrow> gomap \<Rightarrow> string list \<Rightarrow> table \<times> table" where
  "ApplyMetadata P fromAnnotations toAnnotations fromLabels toLabels excludeAnnotations =
     (let mergedAnnotations = applyAnnotations P fromAnnotations toAnnotations excludeAnnotations
      in applyLabels P fromLabels toLabels (Some mergedAnnotations))"

section \<open>The translator interface and the label maps\<close>

text \<open>
  \<open>Default\<close> is the package's \<open>Translator\<close>, an interface: the methods that the label-map
  and selector functions call, each taking the context and returning it with its
  result. \<open>multiNamespace\<close> is one implementation, the single-namespace translator
  another, so every function below takes \<open>Default\<close> as the parameter \<open>D\<close>.
\<close>

record Translator =
  trSingleNamespaceTarget :: bool
  trVirtualLabel :: "ctx \<Rightarrow> string \<Rightarrow> string \<Rightarrow> (string \<times> bool) \<times> ctx"
  trHostLabel :: "ctx \<Rightarrow> string \<Rightarrow> string \<Rightarrow> string \<times> ctx"
  trVirtualLabelCluster :: "ctx \<Rightarrow> string \<Rightarrow> (string \<times> bool) \<times> ctx"
  trHostLabelCluster :: "ctx \<Rightarrow> string \<Rightarrow> string \<times> ctx"
  trMarkerLabelCluster :: string

definition multiNamespaceTranslator :: "package \<Rightarrow> multiNamespace \<Rightarrow> Translator" where
  "multiNamespaceTranslator P s =
     \<lparr>trSingleNamespaceTarget = SingleNamespaceTarget s,
      trVirtualLabel = VirtualLabel s,
      trHostLabel = HostLabel s,
      trVirtualLabelCluster = VirtualLabelCluster P s,
      trHostLabelCluster = HostLabelCluster P s,
      trMarkerLabelCluster = MarkerLabelCluster P s\<rparr>"

text \<open>\<open>copyMaps\<close>; \<open>excludeKey\<close> is a function value, \<open>None\<close> for \<open>nil\<close>.\<close>

fun copyMaps_from :: "(string \<Rightarrow> bool) option \<Rightarrow> table \<Rightarrow> table \<Rightarrow> table" where
  "copyMaps_from excludeKey [] retMap = retMap"
| "copyMaps_from excludeKey ((k, v) # rest) retMap =
     (if excludeKey \<noteq> None \<and> the excludeKey k then copyMaps_from excludeKey rest retMap
      else copyMaps_from excludeKey rest (AList.update k v retMap))"

fun copyMaps_to :: "(string \<Rightarrow> bool) option \<Rightarrow> gomap \<Rightarrow> string list \<Rightarrow> table \<Rightarrow> table" where
  "copyMaps_to excludeKey toMap [] retMap = retMap"
| "copyMaps_to excludeKey toMap (key # rest) retMap =
     (if excludeKey \<noteq> None \<and> the excludeKey key
      then (case map_of (entries toMap) key of
              Some val \<Rightarrow> copyMaps_to excludeKey toMap rest (AList.update key val retMap)
            | None \<Rightarrow> copyMaps_to excludeKey toMap rest retMap)
      else copyMaps_to excludeKey toMap rest retMap)"

definition copyMaps :: "gomap \<Rightarrow> gomap \<Rightarrow> (string \<Rightarrow> bool) option \<Rightarrow> table" where
  "copyMaps fromMap toMap excludeKey =
     copyMaps_to excludeKey toMap (map fst (entries toMap))
       (copyMaps_from excludeKey (entries fromMap) [])"

text \<open>
  The loop that translates the keys back deletes and inserts in the map it ranges
  over. Go visits each entry present at the start that is still there when its turn
  comes, and leaves open whether an entry inserted meanwhile is visited; here the loop
  visits the keys present at the start (\<open>keys\<close>) and no inserted entry.
\<close>

fun translate_back ::
  "(ctx \<Rightarrow> string \<Rightarrow> (string \<times> bool) \<times> ctx) \<Rightarrow> string list \<Rightarrow> table \<times> ctx \<Rightarrow> table \<times> ctx" where
  "translate_back f [] (retLabels, c) = (retLabels, c)"
| "translate_back f (key # keys) (retLabels, c) =
     (case map_of retLabels key of
        None \<Rightarrow> translate_back f keys (retLabels, c)
      | Some val \<Rightarrow>
          (let retLabels = AList.delete key retLabels;
               ((vKey, ok), c) = f c key
           in translate_back f keys
                (if ok then AList.update vKey val retLabels else retLabels, c)))"

text \<open>The loop that adds the labels the target has already, except the vcluster's own.\<close>

fun add_existing :: "table \<Rightarrow> table \<Rightarrow> table" where
  "add_existing [] labels = labels"
| "add_existing ((k, v) # rest) labels =
     (if prefix ''vcluster.loft.sh/'' k then add_existing rest labels
      else if map_of labels k = None then add_existing rest (AList.update k v labels)
      else add_existing rest labels)"

definition VirtualLabelsMap ::
  "package \<Rightarrow> Translator \<Rightarrow> ctx \<Rightarrow> gomap \<Rightarrow> gomap \<Rightarrow> string \<Rightarrow> string list \<Rightarrow> gomap \<times> ctx" where
  "VirtualLabelsMap P D c pLabels vLabels vNamespace excluded =
     (if pLabels = None then (None, c)
      else if snd (VirtualNamespaceMatchesMapping c vNamespace) \<or> \<not> trSingleNamespaceTarget D
      then (Some (maps_Copy [] pLabels), c)
      else
        (let excluded = excluded @ [MarkerLabel P, NamespaceLabel P, ControllerLabel P];
             retLabels = copyMaps pLabels vLabels
               (Some (\<lambda>key. exists excluded key \<or> prefix (NamespaceLabelPrefix P) key));
             (retLabels, c) =
               translate_back (\<lambda>c key. trVirtualLabel D c key vNamespace)
                 (map fst retLabels) (retLabels, c)
         in (Some retLabels, c)))"

fun host_keys ::
  "(ctx \<Rightarrow> string \<Rightarrow> string \<times> ctx) \<Rightarrow> table \<Rightarrow> table \<times> ctx \<Rightarrow> table \<times> ctx" where
  "host_keys f [] (newLabels, c) = (newLabels, c)"
| "host_keys f ((k, v) # rest) (newLabels, c) =
     (let (pKey, c) = f c k in host_keys f rest (AList.update pKey v newLabels, c))"

definition HostLabelsMap ::
  "package \<Rightarrow> Translator \<Rightarrow> ctx \<Rightarrow> gomap \<Rightarrow> gomap \<Rightarrow> string \<Rightarrow> gomap \<times> ctx" where
  "HostLabelsMap P D c vLabels pLabels vNamespace =
     (if vLabels = None then (None, c)
      else if snd (VirtualNamespaceMatchesMapping c vNamespace) \<or> \<not> trSingleNamespaceTarget D
      then (Some (maps_Copy [] vLabels), c)
      else
        (let (newLabels, c) =
               host_keys (\<lambda>c k. trHostLabel D c k vNamespace) (entries vLabels) ([], c);
             newLabels = AList.update (MarkerLabel P) (VClusterName P) newLabels;
             newLabels = (if vNamespace \<noteq> []
                          then AList.update (NamespaceLabel P) vNamespace newLabels
                          else AList.delete (NamespaceLabel P) newLabels);
             newLabels = (if index pLabels (ControllerLabel P) \<noteq> []
                          then AList.update (ControllerLabel P) (index pLabels (ControllerLabel P))
                                 newLabels
                          else newLabels);
             newLabels = add_existing (entries pLabels) newLabels
         in (Some newLabels, c)))"

definition VirtualLabelsMapCluster ::
  "package \<Rightarrow> Translator \<Rightarrow> ctx \<Rightarrow> gomap \<Rightarrow> gomap \<Rightarrow> string list \<Rightarrow> gomap \<times> ctx" where
  "VirtualLabelsMapCluster P D c pLabels vLabels excluded =
     (if pLabels = None then (None, c)
      else
        (let excluded = excluded @ [MarkerLabel P, ControllerLabel P];
             retLabels = copyMaps pLabels vLabels
               (Some (\<lambda>key. exists excluded key \<or> prefix (NamespaceLabelPrefix P) key));
             (retLabels, c) =
               translate_back (trVirtualLabelCluster D) (map fst retLabels) (retLabels, c);
             retLabels = add_existing (entries pLabels) retLabels
         in (Some retLabels, c)))"

definition HostLabelsMapCluster ::
  "package \<Rightarrow> Translator \<Rightarrow> ctx \<Rightarrow> gomap \<Rightarrow> gomap \<Rightarrow> table \<times> ctx" where
  "HostLabelsMapCluster P D c vLabels pLabels =
     (let (newLabels, c) = host_keys (trHostLabelCluster D) (entries vLabels) ([], c);
          newLabels = (if index pLabels (ControllerLabel P) \<noteq> []
                       then AList.update (ControllerLabel P) (index pLabels (ControllerLabel P))
                              newLabels
                       else newLabels);
          newLabels = AList.update (MarkerLabel P) (trMarkerLabelCluster D) newLabels
      in (newLabels, c))"

section \<open>Selector rewriter\<close>

text \<open>A \<open>nil\<close> slice is the empty list; a \<open>*metav1.LabelSelector\<close> is an option.\<close>

record LabelSelectorRequirement =
  Key :: string
  Operator :: string
  Values :: "string list"

record LabelSelector =
  MatchLabels :: gomap
  MatchExpressions :: "LabelSelectorRequirement list"

type_synonym vLabelFunc = "ctx \<Rightarrow> string \<Rightarrow> (string \<times> bool) \<times> ctx"
type_synonym labelFunc = "ctx \<Rightarrow> string \<Rightarrow> string \<times> ctx"

text \<open>The two loops of \<open>virtualLabelSelector\<close>.\<close>

fun virtual_match_labels :: "vLabelFunc \<Rightarrow> table \<Rightarrow> table \<times> ctx \<Rightarrow> table \<times> ctx" where
  "virtual_match_labels f [] (newLabels, c) = (newLabels, c)"
| "virtual_match_labels f ((k, v) # rest) (newLabels, c) =
     (let ((pLabel, ok), c) = f c k;
          pLabel = (if \<not> ok then k else pLabel)
      in virtual_match_labels f rest (AList.update pLabel v newLabels, c))"

fun virtual_match_expressions ::
  "vLabelFunc \<Rightarrow> LabelSelectorRequirement list \<Rightarrow> LabelSelectorRequirement list \<times> ctx
     \<Rightarrow> LabelSelectorRequirement list \<times> ctx" where
  "virtual_match_expressions f [] (newExprs, c) = (newExprs, c)"
| "virtual_match_expressions f (r # rest) (newExprs, c) =
     (let ((pLabel, ok), c) = f c (Key r);
          pLabel = (if \<not> ok then Key r else pLabel)
      in virtual_match_expressions f rest
           (newExprs @ [\<lparr>Key = pLabel, Operator = Operator r, Values = Values r\<rparr>], c))"

definition virtualLabelSelector ::
  "ctx \<Rightarrow> LabelSelector option \<Rightarrow> vLabelFunc \<Rightarrow> LabelSelector option \<times> ctx" where
  "virtualLabelSelector c labelSelector f =
     (case labelSelector of
        None \<Rightarrow> (None, c)
      | Some sel \<Rightarrow>
          (let (newMatchLabels, c) =
                 (case MatchLabels sel of
                    None \<Rightarrow> (None, c)
                  | Some kvs \<Rightarrow>
                      (let (m, c) = virtual_match_labels f kvs ([], c) in (Some m, c)));
               (newExprs, c) = virtual_match_expressions f (MatchExpressions sel) ([], c)
           in (Some \<lparr>MatchLabels = newMatchLabels, MatchExpressions = newExprs\<rparr>, c)))"

definition VirtualLabelSelector ::
  "Translator \<Rightarrow> ctx \<Rightarrow> LabelSelector option \<Rightarrow> string \<Rightarrow> LabelSelector option \<times> ctx" where
  "VirtualLabelSelector D c labelSelector vNamespace =
     virtualLabelSelector c labelSelector (\<lambda>c key. trVirtualLabel D c key vNamespace)"

definition VirtualLabelSelectorCluster ::
  "Translator \<Rightarrow> ctx \<Rightarrow> LabelSelector option \<Rightarrow> LabelSelector option \<times> ctx" where
  "VirtualLabelSelectorCluster D c labelSelector =
     virtualLabelSelector c labelSelector (trVirtualLabelCluster D)"

text \<open>The two loops of \<open>hostLabelSelector\<close>.\<close>

fun host_match_labels :: "labelFunc \<Rightarrow> table \<Rightarrow> table \<times> ctx \<Rightarrow> table \<times> ctx" where
  "host_match_labels f [] (newLabels, c) = (newLabels, c)"
| "host_match_labels f ((k, v) # rest) (newLabels, c) =
     (let (pLabel, c) = f c k
      in host_match_labels f rest (AList.update pLabel v newLabels, c))"

fun host_match_expressions ::
  "labelFunc \<Rightarrow> LabelSelectorRequirement list \<Rightarrow> LabelSelectorRequirement list \<times> ctx
     \<Rightarrow> LabelSelectorRequirement list \<times> ctx" where
  "host_match_expressions f [] (newExprs, c) = (newExprs, c)"
| "host_match_expressions f (r # rest) (newExprs, c) =
     (let (pLabel, c) = f c (Key r)
      in host_match_expressions f rest
           (newExprs @ [\<lparr>Key = pLabel, Operator = Operator r, Values = Values r\<rparr>], c))"

definition hostLabelSelector ::
  "ctx \<Rightarrow> LabelSelector option \<Rightarrow> labelFunc \<Rightarrow> LabelSelector option \<times> ctx" where
  "hostLabelSelector c labelSelector f =
     (case labelSelector of
        None \<Rightarrow> (None, c)
      | Some sel \<Rightarrow>
          (let (newMatchLabels, c) =
                 (case MatchLabels sel of
                    None \<Rightarrow> (None, c)
                  | Some kvs \<Rightarrow>
                      (let (m, c) = host_match_labels f kvs ([], c) in (Some m, c)));
               (newExprs, c) = host_match_expressions f (MatchExpressions sel) ([], c)
           in (Some \<lparr>MatchLabels = newMatchLabels, MatchExpressions = newExprs\<rparr>, c)))"

definition HostLabelSelector ::
  "Translator \<Rightarrow> ctx \<Rightarrow> LabelSelector option \<Rightarrow> string \<Rightarrow> LabelSelector option \<times> ctx" where
  "HostLabelSelector D c labelSelector vNamespace =
     hostLabelSelector c labelSelector (\<lambda>c key. trHostLabel D c key vNamespace)"

definition HostLabelSelectorCluster ::
  "Translator \<Rightarrow> ctx \<Rightarrow> LabelSelector option \<Rightarrow> LabelSelector option \<times> ctx" where
  "HostLabelSelectorCluster D c labelSelector =
     hostLabelSelector c labelSelector (trHostLabelCluster D)"

section \<open>Schema reconciler\<close>

subsection \<open>Errors\<close>

text \<open>
  The errors of the API machinery that the reconciler tells apart: a status error
  with reason not-found or already-exists, any other failure of a call, an error
  wrapping another (\<open>fmt.Errorf\<close> with \<open>%w\<close>, \<open>errors.Wrap\<close>), an error made of a message
  only, and the two errors with which a wait ends without success.
  \<open>kerrors.IsNotFound\<close> and \<open>kerrors.IsAlreadyExists\<close> look through the wrapping.
\<close>

datatype err =
    StatusNotFound string
  | StatusAlreadyExists string
  | Failure string
  | Wrapped string err
  | Message string
  | ContextDone
  | WaitTimeout

fun IsNotFound :: "err \<Rightarrow> bool" where
  "IsNotFound (StatusNotFound _) = True"
| "IsNotFound (Wrapped _ e) = IsNotFound e"
| "IsNotFound _ = False"

fun IsAlreadyExists :: "err \<Rightarrow> bool" where
  "IsAlreadyExists (StatusAlreadyExists _) = True"
| "IsAlreadyExists (Wrapped _ e) = IsAlreadyExists e"
| "IsAlreadyExists _ = False"

subsection \<open>Kinds, resources and type definitions\<close>

record GroupVersionKind =
  gvkGroup :: string
  gvkVersion :: string
  gvkKind :: string

text \<open>\<open>GroupVersion().String()\<close> and \<open>GroupVersionKind.String()\<close>.\<close>

definition GroupVersion_String :: "GroupVersionKind \<Rightarrow> string" where
  "GroupVersion_String gvk =
     (if gvkGroup gvk = [] then gvkVersion gvk else gvkGroup gvk @ ''/'' @ gvkVersion gvk)"

definition GroupVersionKind_String :: "GroupVersionKind \<Rightarrow> string" where
  "GroupVersionKind_String gvk = gvkGroup gvk @ ''/'' @ gvkVersion gvk @ '', Kind='' @ gvkKind gvk"

record GroupVersionResource =
  gvrGroup :: string
  gvrVersion :: string
  gvrResource :: string

text \<open>\<open>GroupResource().String()\<close>.\<close>

definition GroupResource_String :: "GroupVersionResource \<Rightarrow> string" where
  "GroupResource_String gvr =
     (if gvrGroup gvr = [] then gvrResource gvr else gvrResource gvr @ ''.'' @ gvrGroup gvr)"

record APIResource =
  apiName :: string
  apiNamespaced :: bool
  apiGroup :: string
  apiKind :: string

record CustomResourceSubresources =
  subStatus :: "unit option"

record CustomResourceDefinitionVersion =
  verName :: string
  verServed :: bool
  verStorage :: bool
  verSubresources :: "CustomResourceSubresources option"

record CustomResourceDefinitionCondition =
  condType :: string
  condStatus :: string
  condMessage :: string

datatype ResourceScope = ClusterScoped | NamespaceScoped

record CustomResourceDefinition =
  crdName :: string
  crdUID :: string
  crdResourceVersion :: string
  crdManagedFields :: "string list"
  crdOwnerReferences :: "OwnerReference list"
  crdScope :: ResourceScope
  crdVersions :: "CustomResourceDefinitionVersion list"
  crdPreserveUnknownFields :: bool
  crdConversion :: "string option"
  crdConditions :: "CustomResourceDefinitionCondition list"

subsection \<open>The two clusters\<close>

text \<open>
  A \<open>*rest.Config\<close> stands for a cluster, which the reconciler knows by the answers to
  its calls: building the two clients, the discovery of the resources of a group
  version, the fetch of a type definition by name (the answer may change from one
  fetch to the next: the first argument numbers the fetches of a run), and its
  creation.
\<close>

record cluster =
  newClientset :: "err option"
  newDiscoveryClient :: "err option"
  serverResourcesForGroupVersion :: "string \<Rightarrow> err + APIResource list"
  getCRD :: "nat \<Rightarrow> string \<Rightarrow> err + CustomResourceDefinition"
  createCRD :: "CustomResourceDefinition \<Rightarrow> err option"

text \<open>
  Every call to a cluster is noted with its outcome, in order: which cluster, which
  call, and the error if it failed. \<open>PollCRD\<close> is the fetch inside the readiness wait,
  \<open>Backoff\<close> the wait itself ending without the condition met.
\<close>

datatype side = Virtual | Physical

datatype call =
    NewClientset
  | NewDiscoveryClient
  | ServerResources
  | GetCRD
  | CreateCRD
  | PollCRD
  | Backoff

type_synonym event = "side \<times> call \<times> err option"

subsection \<open>Discovery\<close>

fun find_kind :: "string \<Rightarrow> APIResource list \<Rightarrow> APIResource option" where
  "find_kind k [] = None"
| "find_kind k (r # rs) = (if apiKind r = k then Some r else find_kind k rs)"

definition KindExists ::
  "side \<Rightarrow> cluster \<Rightarrow> GroupVersionKind \<Rightarrow> (err + APIResource) \<times> event list" where
  "KindExists sd config groupVersionKind =
     (case newDiscoveryClient config of
        Some e \<Rightarrow> (Inl e, [(sd, NewDiscoveryClient, Some e)])
      | None \<Rightarrow>
          (case serverResourcesForGroupVersion config (GroupVersion_String groupVersionKind) of
             Inl e \<Rightarrow>
               (Inl e, [(sd, NewDiscoveryClient, None), (sd, ServerResources, Some e)])
           | Inr resources \<Rightarrow>
               (case find_kind (gvkKind groupVersionKind) resources of
                  Some r \<Rightarrow> Inr r
                | None \<Rightarrow> Inl (StatusNotFound (gvkKind groupVersionKind)),
                [(sd, NewDiscoveryClient, None), (sd, ServerResources, None)])))"

definition ConvertKindToResource ::
  "side \<Rightarrow> cluster \<Rightarrow> GroupVersionKind \<Rightarrow> (err + GroupVersionResource) \<times> event list" where
  "ConvertKindToResource sd config groupVersionKind =
     (case newDiscoveryClient config of
        Some e \<Rightarrow> (Inl e, [(sd, NewDiscoveryClient, Some e)])
      | None \<Rightarrow>
          (case serverResourcesForGroupVersion config (GroupVersion_String groupVersionKind) of
             Inl e \<Rightarrow>
               (Inl e, [(sd, NewDiscoveryClient, None), (sd, ServerResources, Some e)])
           | Inr resources \<Rightarrow>
               (case find_kind (gvkKind groupVersionKind) resources of
                  Some r \<Rightarrow>
                    Inr \<lparr>gvrGroup = gvkGroup groupVersionKind,
                         gvrVersion = gvkVersion groupVersionKind,
                         gvrResource = apiName r\<rparr>
                | None \<Rightarrow> Inl (StatusNotFound (gvkKind groupVersionKind)),
                [(sd, NewDiscoveryClient, None), (sd, ServerResources, None)])))"

subsection \<open>The readiness wait\<close>

text \<open>
  \<open>wait.ExponentialBackoffWithContext\<close>: up to \<open>steps\<close> times, unless the context is
  done (\<open>done\<close> is the number of the poll from which on it is, if ever), the condition
  is run; its error ends the wait with that error, its \<open>true\<close> ends it with \<open>nil\<close>;
  otherwise the wait sleeps and goes on. \<open>i\<close> numbers the polls.
\<close>

function ExponentialBackoffWithContext ::
  "nat option \<Rightarrow> nat \<Rightarrow> nat \<Rightarrow> (nat \<Rightarrow> (bool \<times> err option) \<times> event list)
     \<Rightarrow> err option \<times> event list" where
  "ExponentialBackoffWithContext done steps i condition =
     (if steps = 0 then (Some WaitTimeout, [(Virtual, Backoff, Some WaitTimeout)])
      else if (case done of None \<Rightarrow> False | Some d \<Rightarrow> d \<le> i)
      then (Some ContextDone, [(Virtual, Backoff, Some ContextDone)])
      else
        (case condition i of
           ((_, Some e), evs) \<Rightarrow> (Some e, evs)
         | ((True, None), evs) \<Rightarrow> (None, evs)
         | ((False, None), evs) \<Rightarrow>
             (let (r, evs') = ExponentialBackoffWithContext done (steps - 1) (Suc i) condition
              in (r, evs @ evs'))))"
  by pat_completeness auto
termination
  by (relation "measure (\<lambda>(done, steps, i, condition). steps)") auto

declare ExponentialBackoffWithContext.simps [simp del]

text \<open>The first version of the list with the name asked for, if any.\<close>

fun find_version ::
  "string \<Rightarrow> CustomResourceDefinitionVersion list \<Rightarrow> CustomResourceDefinitionVersion option" where
  "find_version n [] = None"
| "find_version n (v # vs) = (if verName v = n then Some v else find_version n vs)"

definition declares_status :: "CustomResourceDefinitionVersion \<Rightarrow> bool" where
  "declares_status v =
     (verSubresources v \<noteq> None \<and> subStatus (the (verSubresources v)) \<noteq> None)"

text \<open>The condition of the wait: one fetch, then the search for an established condition.\<close>

fun established :: "CustomResourceDefinitionCondition list \<Rightarrow> bool" where
  "established [] = False"
| "established (cond # conds) =
     (if condType cond = ''Established'' \<and> condStatus cond = ''True'' then True
      else established conds)"

definition crd_ready :: "cluster \<Rightarrow> string \<Rightarrow> nat \<Rightarrow> (bool \<times> err option) \<times> event list" where
  "crd_ready vConfig name i =
     (case getCRD vConfig i name of
        Inl e \<Rightarrow>
          ((False, Some (Wrapped ''retrieve crd in virtual cluster'' e)),
           [(Virtual, PollCRD, Some e)])
      | Inr crdDefinition \<Rightarrow>
          ((established (crdConditions crdDefinition), None), [(Virtual, PollCRD, None)]))"

subsection \<open>EnsureCRDFromPhysicalCluster\<close>

text \<open>
  The result is the triple the function returns, with the calls made. The function
  has three parts: the kind is already in the virtual cluster; else the type
  definition is taken from the host cluster and prepared; then it is created in the
  virtual cluster and waited for. The log lines are left out.
\<close>

type_synonym ensured = "(bool \<times> bool \<times> err option) \<times> event list"

definition crd_exists ::
  "cluster \<Rightarrow> GroupVersionKind \<Rightarrow> APIResource \<Rightarrow> event list \<Rightarrow> ensured" where
  "crd_exists vConfig groupVersionKind apiResource evs =
     (let isClusterScoped = \<not> apiNamespaced apiResource;
          crdName = apiName apiResource @
            (if apiGroup apiResource \<noteq> [] then ''.'' @ apiGroup apiResource
             else if gvkGroup groupVersionKind \<noteq> [] then ''.'' @ gvkGroup groupVersionKind
             else [])
      in case getCRD vConfig 0 crdName of
           Inl e \<Rightarrow> ((isClusterScoped, False, None), evs @ [(Virtual, GetCRD, Some e)])
         | Inr crdDefinition \<Rightarrow>
             ((isClusterScoped,
               (case find_version (gvkVersion groupVersionKind) (crdVersions crdDefinition) of
                  None \<Rightarrow> False
                | Some version \<Rightarrow> declares_status version),
               None),
              evs @ [(Virtual, GetCRD, None)]))"

definition crd_create ::
  "nat option \<Rightarrow> cluster \<Rightarrow> GroupVersionKind \<Rightarrow> GroupVersionResource
     \<Rightarrow> CustomResourceDefinition \<Rightarrow> event list \<Rightarrow> ensured" where
  "crd_create done vConfig groupVersionKind groupVersionResource crdDefinition evs =
     (let crdDefinition = crdDefinition
            \<lparr>crdUID := [], crdResourceVersion := [], crdManagedFields := [],
             crdOwnerReferences := [], crdConditions := [],
             crdPreserveUnknownFields := False, crdConversion := None\<rparr>;
          found = find_version (gvkVersion groupVersionKind) (crdVersions crdDefinition);
          newVersions =
            (case found of
               None \<Rightarrow> []
             | Some version \<Rightarrow> [version\<lparr>verServed := True, verStorage := True\<rparr>]);
          hasStatusSubresource =
            (case found of None \<Rightarrow> False | Some version \<Rightarrow> declares_status version);
          crdDefinition = crdDefinition\<lparr>crdVersions := newVersions\<rparr>;
          created = createCRD vConfig crdDefinition;
          evs = evs @ [(Virtual, CreateCRD, created)]
      in if created \<noteq> None \<and> \<not> IsAlreadyExists (the created)
         then ((False, hasStatusSubresource,
                Some (Wrapped ''create crd in virtual cluster'' (the created))), evs)
         else
           (let (waited, polls) =
                  ExponentialBackoffWithContext done 2147483647 0
                    (crd_ready vConfig (GroupResource_String groupVersionResource));
                evs = evs @ polls
            in if waited \<noteq> None
               then ((False, hasStatusSubresource,
                      Some (Wrapped (''failed to wait for CRD '' @
                                     GroupVersionKind_String groupVersionKind @
                                     '' to become ready'') (the waited))), evs)
               else ((crdScope crdDefinition = ClusterScoped, hasStatusSubresource, None),
                     evs)))"

definition EnsureCRDFromPhysicalCluster ::
  "nat option \<Rightarrow> cluster \<Rightarrow> cluster \<Rightarrow> GroupVersionKind \<Rightarrow> ensured" where
  "EnsureCRDFromPhysicalCluster done pConfig vConfig groupVersionKind =
     (case newClientset vConfig of
        Some e \<Rightarrow> ((False, False, Some e), [(Virtual, NewClientset, Some e)])
      | None \<Rightarrow>
          (case KindExists Virtual vConfig groupVersionKind of
             (Inr apiResource, evs) \<Rightarrow>
               crd_exists vConfig groupVersionKind apiResource ((Virtual, NewClientset, None) # evs)
           | (Inl e, evs) \<Rightarrow>
               if \<not> IsNotFound e
               then ((False, False, Some (Wrapped ''check virtual cluster kind'' e)),
                     (Virtual, NewClientset, None) # evs)
               else
                 (case ConvertKindToResource Physical pConfig groupVersionKind of
                    (Inl e, evs') \<Rightarrow>
                      ((False, False,
                        Some (if IsNotFound e
                              then Message (''seems like resource '' @
                                     GroupVersionKind_String groupVersionKind @
                                     '' is not available in the physical cluster or vcluster has no access to it'')
                              else e)),
                       (Virtual, NewClientset, None) # evs @ evs')
                  | (Inr groupVersionResource, evs') \<Rightarrow>
                      (case newClientset pConfig of
                         Some e \<Rightarrow>
                           ((False, False, Some e),
                            (Virtual, NewClientset, None) # evs @ evs' @
                              [(Physical, NewClientset, Some e)])
                       | None \<Rightarrow>
                           (case getCRD pConfig 0 (GroupResource_String groupVersionResource) of
                              Inl e \<Rightarrow>
                                ((False, False, Some (Wrapped ''retrieve crd in host cluster'' e)),
                                 (Virtual, NewClientset, None) # evs @ evs' @
                                   [(Physical, NewClientset, None), (Physical, GetCRD, Some e)])
                            | Inr crdDefinition \<Rightarrow>
                                crd_create done vConfig groupVersionKind groupVersionResource
                                  crdDefinition
                                  ((Virtual, NewClientset, None) # evs @ evs' @
                                     [(Physical, NewClientset, None),
                                      (Physical, GetCRD, None)]))))))"

section \<open>Example inputs\<close>

text \<open>The values the key constants have upstream, with a vcluster called \<open>my-vcluster\<close>.\<close>

definition example_package :: package where
  "example_package =
     \<lparr>VClusterName = ''my-vcluster'',
      LabelPrefix = ''vcluster.loft.sh/label'',
      MarkerLabel = ''vcluster.loft.sh/managed-by'',
      NamespaceLabel = ''vcluster.loft.sh/namespace'',
      ControllerLabel = ''vcluster.loft.sh/controlled-by'',
      NamespaceLabelPrefix = ''vcluster.loft.sh/ns-label'',
      ManagedAnnotationsAnnotation = ''vcluster.loft.sh/managed-annotations'',
      ManagedLabelsAnnotation = ''vcluster.loft.sh/managed-labels''\<rparr>"

definition example_context :: SyncContext where
  "example_context =
     \<lparr>SyncLabels = [],
      NamespaceMappings = [''pinned'' \<mapsto> ''host-pinned''],
      Store = Some Map.empty\<rparr>"

definition example_owner :: Object where
  "example_owner =
     \<lparr>objAPIVersion = ''v1'', objKind = ''Service'', objName = ''my-vcluster'',
      objNamespace = ''host-ns'', objUID = ''7e0c6f1a'', objLabels = None,
      objAnnotations = None, objOwnerReferences = []\<rparr>"

definition example_controlled :: Object where
  "example_controlled =
     \<lparr>objAPIVersion = ''v1'', objKind = ''Pod'', objName = ''web-0'',
      objNamespace = ''default'', objUID = ''51b2c9d4'', objLabels = None,
      objAnnotations = None,
      objOwnerReferences =
        [\<lparr>APIVersion = ''apps/v1'', Kind = ''StatefulSet'', Name = ''web'', UID = ''0a1b2c3d'',
          Controller = Some True, BlockOwnerDeletion = Some True\<rparr>]\<rparr>"

definition long_name :: string where
  "long_name = ''aaaaaaaaaaaaaaaaaaaaaaaaaaaaaaaaaaaaaaaaaaaaaaaaaaaaaaaaaaaaaaaa''"

definition unknown_key :: string where
  "unknown_key = ''vcluster.loft.sh/label-unknown''"

definition unknown_selector :: LabelSelector where
  "unknown_selector =
     \<lparr>MatchLabels = Some [(unknown_key, ''v'')],
      MatchExpressions = [\<lparr>Key = unknown_key, Operator = ''Exists'', Values = []\<rparr>]\<rparr>"

definition example_translator :: Translator where
  "example_translator =
     multiNamespaceTranslator example_package (NewMultiNamespaceTranslator ''host-ns'')"

definition widget :: GroupVersionKind where
  "widget = \<lparr>gvkGroup = ''example.com'', gvkVersion = ''v1'', gvkKind = ''Widget''\<rparr>"

definition widget_resource :: APIResource where
  "widget_resource =
     \<lparr>apiName = ''widgets'', apiNamespaced = True, apiGroup = [], apiKind = ''Widget''\<rparr>"

definition widget_crd :: CustomResourceDefinition where
  "widget_crd =
     \<lparr>crdName = ''widgets.example.com'', crdUID = ''c0ffee'', crdResourceVersion = ''42'',
      crdManagedFields = [''kubectl''], crdOwnerReferences = [], crdScope = NamespaceScoped,
      crdVersions =
        [\<lparr>verName = ''v1'', verServed = True, verStorage = False,
          verSubresources = Some \<lparr>subStatus = Some ()\<rparr>\<rparr>,
         \<lparr>verName = ''v2'', verServed = True, verStorage = True, verSubresources = None\<rparr>],
      crdPreserveUnknownFields = True, crdConversion = Some ''Webhook'',
      crdConditions = [\<lparr>condType = ''Established'', condStatus = ''True'', condMessage = []\<rparr>]\<rparr>"

text \<open>A virtual cluster that has the kind and whose type definitions cannot be fetched.\<close>

definition virtual_with_kind :: cluster where
  "virtual_with_kind =
     \<lparr>newClientset = None, newDiscoveryClient = None,
      serverResourcesForGroupVersion = (\<lambda>gv. Inr [widget_resource]),
      getCRD = (\<lambda>n name. Inl (Failure ''connection refused'')),
      createCRD = (\<lambda>crd. None)\<rparr>"

text \<open>A virtual cluster without the kind, and the same failing fetch.\<close>

definition virtual_without_kind :: cluster where
  "virtual_without_kind =
     \<lparr>newClientset = None, newDiscoveryClient = None,
      serverResourcesForGroupVersion = (\<lambda>gv. Inr []),
      getCRD = (\<lambda>n name. Inl (Failure ''connection refused'')),
      createCRD = (\<lambda>crd. None)\<rparr>"

definition physical_with_kind :: cluster where
  "physical_with_kind =
     \<lparr>newClientset = None, newDiscoveryClient = None,
      serverResourcesForGroupVersion = (\<lambda>gv. Inr [widget_resource]),
      getCRD = (\<lambda>n name. Inr widget_crd),
      createCRD = (\<lambda>crd. None)\<rparr>"

text \<open>A configuration whose always-synced labels include the host key derived for \<open>app\<close>.\<close>

definition synced_context :: SyncContext where
  "synced_context =
     \<lparr>SyncLabels = [''vcluster.loft.sh/label-host-ns-x-my-vcluster-x-a172cedcae''],
      NamespaceMappings = Map.empty,
      Store = Some Map.empty\<rparr>"

section \<open>Predicates of the properties\<close>

text \<open>
  The context has no translation for the host key \<open>k\<close>: \<open>k\<close> is not an always-synced
  label and the store, if there is one, has no entry for it.
\<close>

definition no_entry :: "string \<Rightarrow> ctx \<Rightarrow> bool" where
  "no_entry k c =
     (case c of
        None \<Rightarrow> True
      | Some sc \<Rightarrow> k \<notin> set (SyncLabels sc) \<and>
          (case Store sc of None \<Rightarrow> True | Some tbl \<Rightarrow> tbl k = None))"

text \<open>
  The failures that the reconciler goes on after, by design: a failed fetch of the type
  definition of a kind that the virtual cluster has already, a not-found answer to the
  discovery in the virtual cluster, and an already-exists answer to the creation.
\<close>

definition tolerated :: "event \<Rightarrow> bool" where
  "tolerated ev =
     (case ev of
        (sd, c, None) \<Rightarrow> True
      | (sd, c, Some e) \<Rightarrow>
          sd = Virtual \<and>
          (c = GetCRD \<or>
           (c = NewDiscoveryClient \<or> c = ServerResources) \<and> IsNotFound e \<or>
           c = CreateCRD \<and> IsAlreadyExists e))"

text \<open>The error of a failed readiness wait: it wraps the cause and names the kind.\<close>

definition wait_error :: "GroupVersionKind \<Rightarrow> err option \<Rightarrow> bool" where
  "wait_error gvk r =
     (case r of
        Some (Wrapped m e) \<Rightarrow>
          m = ''failed to wait for CRD '' @ GroupVersionKind_String gvk @ '' to become ready''
      | _ \<Rightarrow> False)"

section \<open>Properties\<close>

subsection \<open>The digest is 32 bytes, its hex form 64 lower-case hex digits\<close>

lemma length_round256: "length st = 8 \<Longrightarrow> length (round256 st kw) = 8"
proof -
  assume "length st = 8"
  then obtain a b c d e f g h where "st = [a, b, c, d, e, f, g, h]"
    by (auto simp: eval_nat_numeral length_Suc_conv)
  then show ?thesis
    by (cases kw) (simp add: Let_def)
qed

lemma length_foldl_round256: "length st = 8 \<Longrightarrow> length (foldl round256 st kws) = 8"
  by (induction kws arbitrary: st) (simp_all add: length_round256)

lemma length_block256: "length hs = 8 \<Longrightarrow> length (block256 hs blk) = 8"
  by (simp add: block256_def Let_def length_foldl_round256)

lemma length_foldl_block256: "length hs = 8 \<Longrightarrow> length (foldl block256 hs blks) = 8"
  by (induction blks arbitrary: hs) (simp_all add: length_block256)

lemma length_concat_be_bytes: "length (concat (map (\<lambda>h. be_bytes n (f h)) hs)) = n * length hs"
  by (induction hs) (simp_all add: be_bytes_def)

lemma length_Sum256: "length (Sum256 s) = 32"
proof -
  have "length H256 = 8" by (simp add: H256_def)
  then show ?thesis
    by (simp add: Sum256_def Let_def length_concat_be_bytes length_foldl_block256)
qed

lemma length_EncodeToString: "length (EncodeToString bs) = 2 * length bs"
  by (induction bs) (simp_all add: EncodeToString_def)

lemma length_hex_Sum256: "length (EncodeToString (Sum256 s)) = 64"
  by (simp add: length_EncodeToString length_Sum256)

lemma length_hextable: "length hextable = 16"
  by (simp add: hextable_def)

lemma hex_digit_low: "hextable ! unat ((b :: byte) AND 0x0f) \<in> set hextable"
proof -
  have "unat (b AND 15) \<le> unat (15 :: byte)"
    by (rule word_and_le1 [THEN word_le_nat_alt [THEN iffD1]])
  then have "unat (b AND 15) < length hextable"
    by (simp add: length_hextable)
  then show ?thesis
    by (rule nth_mem)
qed

lemma hex_digit_high: "hextable ! unat (drop_bit 4 (b :: byte)) \<in> set hextable"
proof -
  have "unat b < 256"
    using unsigned_less [of b, where ?'a = nat] by simp
  moreover have "unat (drop_bit 4 b) = unat b div 16"
    by (simp add: drop_bit_eq_div unat_div)
  ultimately have "unat (drop_bit 4 b) < length hextable"
    unfolding length_hextable by arith
  then show ?thesis
    by (rule nth_mem)
qed

lemma set_EncodeToString: "set (EncodeToString bs) \<subseteq> set hextable"
  by (induction bs) (simp_all add: EncodeToString_def hex_digit_low hex_digit_high)

lemma hex_no_dash: "CHR ''-'' \<notin> set (take n (EncodeToString bs))"
proof
  assume "CHR ''-'' \<in> set (take n (EncodeToString bs))"
  then have "CHR ''-'' \<in> set hextable"
    using set_EncodeToString by (blast dest: in_set_takeD)
  then show False
    by (simp add: hextable_def)
qed

subsection \<open>Evaluating a digest\<close>

text \<open>
  A word is its own last 32 bits. The equations below are those of the definitions
  with every sum and rotation cut to 32 bits, so that a digest evaluates, step by
  step, on numerals that stay small.
\<close>

lemma norm32: "(x :: u32) = take_bit 32 x"
  by (simp add: take_bit_word_eq_self)

lemma rotr_eval: "rotr n x = take_bit 32 (drop_bit n x OR push_bit (32 - n) x)"
  unfolding rotr_def by (rule norm32)

lemma next_word_eval:
  "next_word w =
    (let t = length w;
         w15 = w ! (t - 15); w2 = w ! (t - 2);
         s0 = rotr 7 w15 XOR rotr 18 w15 XOR drop_bit 3 w15;
         s1 = rotr 17 w2 XOR rotr 19 w2 XOR drop_bit 10 w2
     in take_bit 32 (w ! (t - 16) + s0 + w ! (t - 7) + s1))"
  unfolding next_word_def Let_def by (rule norm32)

lemma round256_eval:
  "round256 [a, b, c, d, e, f, g, h] (k, w) =
    (let S1 = rotr 6 e XOR rotr 11 e XOR rotr 25 e;
         ch = (e AND f) XOR (NOT e AND g);
         t1 = take_bit 32 (h + S1 + ch + k + w);
         S0 = rotr 2 a XOR rotr 13 a XOR rotr 22 a;
         maj = (a AND b) XOR (a AND c) XOR (b AND c);
         t2 = take_bit 32 (S0 + maj)
     in [take_bit 32 (t1 + t2), a, b, c, take_bit 32 (d + t1), e, f, g])"
  by (simp add: Let_def take_bit_word_eq_self)

lemma block256_eval:
  "block256 hs blk =
     map2 (\<lambda>x y. take_bit 32 (x + y)) hs
       (foldl round256 hs (zip K256 (schedule 48 (map be32 (chunks 16 4 blk)))))"
  by (simp add: block256_def Let_def take_bit_word_eq_self)

lemma schedule_numeral:
  "schedule (numeral k) w = schedule (pred_numeral k) (w @ [next_word w])"
  by (simp add: numeral_eq_Suc)

lemma chunks_numeral:
  "chunks (numeral n) k xs = take k xs # chunks (pred_numeral n) k (drop k xs)"
  by (simp add: numeral_eq_Suc)

lemma replicate_numeral': "replicate (numeral n) x = x # replicate (pred_numeral n) x"
  by (simp add: numeral_eq_Suc)

lemmas K256_rows = K256_def K256_row0_def K256_row1_def K256_row2_def K256_row3_def
  K256_row4_def K256_row5_def K256_row6_def K256_row7_def

lemma pad_zeros:
  assumes "n < 56"
  shows "(119 - (n::nat) mod 64) mod 64 = 55 - n"
proof -
  have 1: "n mod 64 = n"
    using assms by (intro mod_less) linarith
  have 2: "119 - n = 64 + (55 - n)"
    using assms by linarith
  have 3: "(64 + (55 - n)) mod 64 = (55 - n) mod 64"
    by (rule mod_add_self1)
  have 4: "(55 - n) mod 64 = 55 - n"
    by (intro mod_less) linarith
  show ?thesis
    by (simp only: 1 2 3 4)
qed

lemma length_pad_short:
  assumes "length m < 56"
  shows "length (pad m) = 64"
proof -
  have "length (pad m) = length m + 1 + (119 - length m mod 64) mod 64 + 8"
    by (simp add: pad_def be_bytes_def)
  also have "\<dots> = length m + 1 + (55 - length m) + 8"
    by (simp only: pad_zeros [OF assms])
  also have "\<dots> = 64"
    using assms by linarith
  finally show ?thesis .
qed

lemma Sum256_short:
  "length s < 56 \<Longrightarrow>
   Sum256 s = concat (map (\<lambda>h. be_bytes 4 (ucast h)) (block256 H256 (pad (bytes_of s))))"
proof -
  assume "length s < 56"
  then have "length (pad (bytes_of s)) = 64"
    by (intro length_pad_short) (simp add: bytes_of_def)
  then show ?thesis
    by (simp add: Sum256_def Let_def)
qed

text \<open>The digest of \<open>abc\<close> is the one the standard gives.\<close>

lemma sha256_abc:
  "EncodeToString (Sum256 ''abc'') =
     ''ba7816bf8f01cfea414140de5dae2223b00361a396177a9cb410ff61f20015ad''"
proof -
  have padded: "pad (bytes_of ''abc'') =
     [97, 98, 99, 128, 0, 0, 0, 0, 0, 0, 0, 0, 0, 0, 0, 0,
      0, 0, 0, 0, 0, 0, 0, 0, 0, 0, 0, 0, 0, 0, 0, 0,
      0, 0, 0, 0, 0, 0, 0, 0, 0, 0, 0, 0, 0, 0, 0, 0,
      0, 0, 0, 0, 0, 0, 0, 0, 0, 0, 0, 0, 0, 0, 0, 24]"
    by (simp add: bytes_of_def pad_def be_bytes_def replicate_numeral' upt_conv_Cons)
  have words: "schedule 48 (map be32 (chunks 16 4 (pad (bytes_of ''abc'')))) =
     [1633837952, 0, 0, 0, 0, 0,
      0, 0, 0, 0, 0, 0,
      0, 0, 0, 24, 1633837952, 983040,
      2108187653, 1610613702, 1050508152, 25426944, 316456923, 3806512014,
      3357629466, 3073800610, 3854317833, 845560923, 2636160359, 3968280267,
      1881225380, 3552024379, 2482346367, 996719219, 2952069057, 4043988066,
      176896406, 1924104970, 2483675966, 610538786, 2672279444, 4037431130,
      1042573945, 657669027, 206005234, 2215296807, 2049510749, 106709978,
      4215179723, 3430291419, 3118885940, 2845390439, 2226839261, 3256115900,
      344409900, 2987358873, 4015503821, 3957764664, 2682456414, 2025622859,
      2755645205, 1720397816, 4004225740, 313650667]"
    by (simp add: padded chunks_numeral be32_def schedule_numeral next_word_eval rotr_eval
        Let_def)
  have rounds: "foldl round256 H256
       (zip K256 (schedule 48 (map be32 (chunks 16 4 (pad (bytes_of ''abc'')))))) =
     [1349398616, 3550093669, 80891244, 3093179625,
      1593118500, 4212265488, 2492278198, 2518632596]"
    by (simp add: words K256_rows H256_def round256_eval rotr_eval Let_def
        del: round256.simps)
  have block: "block256 H256 (pad (bytes_of ''abc'')) =
     [3128432319, 2399260650, 1094795486, 1571693091,
      2953011619, 2518121116, 3021012833, 4060091821]"
    by (simp add: block256_eval rounds) (simp add: H256_def)
  show ?thesis
    by (simp add: Sum256_short block be_bytes_def EncodeToString_def hextable_def
        upt_conv_Cons)
qed


text \<open>The digests of the example inputs.\<close>

lemma sha256_app:
  "EncodeToString (Sum256 ''app'') =
     ''a172cedcae47474b615c54d510a5d84a8dea3032e958587430b413538be3f333''"
proof -
  have padded: "pad (bytes_of ''app'') =
     [97, 112, 112, 128, 0, 0, 0, 0, 0, 0, 0, 0, 0, 0, 0, 0,
      0, 0, 0, 0, 0, 0, 0, 0, 0, 0, 0, 0, 0, 0, 0, 0,
      0, 0, 0, 0, 0, 0, 0, 0, 0, 0, 0, 0, 0, 0, 0, 0,
      0, 0, 0, 0, 0, 0, 0, 0, 0, 0, 0, 0, 0, 0, 0, 24]"
    by (simp add: bytes_of_def pad_def be_bytes_def replicate_numeral' upt_conv_Cons)
  have words: "schedule 48 (map be32 (chunks 16 4 (pad (bytes_of ''app'')))) =
     [1634758784, 0, 0, 0, 0, 0,
      0, 0, 0, 0, 0, 0,
      0, 0, 0, 24, 1634758784, 983040,
      910712970, 1610613702, 1012518901, 25426944, 3725275116, 3807432846,
      4065031695, 2830528924, 905615735, 858897606, 555482852, 3355591549,
      2476581602, 1828440677, 791862516, 3707097033, 530257047, 2102767800,
      3966637701, 217859950, 1248365980, 2578164529, 3604022575, 3081995935,
      982108239, 120182144, 2106088866, 2731066907, 2292397915, 439884939,
      3760203382, 238783441, 1376817239, 1130601592, 3049953130, 1711424053,
      417361274, 3880642579, 3898606249, 1043224422, 4105477844, 4201071774,
      3534932927, 1918841328, 3202323537, 2043460710]"
    by (simp add: padded chunks_numeral be32_def schedule_numeral next_word_eval rotr_eval
        Let_def)
  have rounds: "foldl round256 H256
       (zip K256 (schedule 48 (map be32 (chunks 16 4 (pad (bytes_of ''app'')))))) =
     [929622133, 4074739910, 619536739, 1800790800,
      1021042099, 1314058216, 288373160, 805512730]"
    by (simp add: words K256_rows H256_def round256_eval rotr_eval Let_def
        del: round256.simps)
  have block: "block256 H256 (pad (bytes_of ''app'')) =
     [2708655836, 2923906891, 1633440981, 279304266,
      2380935218, 3914881140, 817107795, 2346971955]"
    by (simp add: block256_eval rounds) (simp add: H256_def)
  show ?thesis
    by (simp add: Sum256_short block be_bytes_def EncodeToString_def hextable_def
        upt_conv_Cons)
qed

lemma sha256_default:
  "EncodeToString (Sum256 ''default'') =
     ''37a8eec1ce19687d132fe29051dca629d164e2c4958ba141d5f4133a33f0688f''"
proof -
  have padded: "pad (bytes_of ''default'') =
     [100, 101, 102, 97, 117, 108, 116, 128, 0, 0, 0, 0, 0, 0, 0, 0,
      0, 0, 0, 0, 0, 0, 0, 0, 0, 0, 0, 0, 0, 0, 0, 0,
      0, 0, 0, 0, 0, 0, 0, 0, 0, 0, 0, 0, 0, 0, 0, 0,
      0, 0, 0, 0, 0, 0, 0, 0, 0, 0, 0, 0, 0, 0, 0, 56]"
    by (simp add: bytes_of_def pad_def be_bytes_def replicate_numeral' upt_conv_Cons)
  have words: "schedule 48 (map be32 (chunks 16 4 (pad (bytes_of ''default'')))) =
     [1684366945, 1970041984, 0, 0, 0, 0,
      0, 0, 0, 0, 0, 0,
      0, 0, 0, 56, 2009903491, 1971811456,
      3471582771, 1422742958, 2548835746, 7852970, 2520834618, 2339180356,
      3808886352, 4115936715, 4121428490, 877524655, 32580107, 3687862796,
      2965351385, 720294830, 1633199624, 2527367513, 1316170941, 2417738079,
      142319545, 2839671956, 1493420778, 3018535480, 2585561731, 1327236347,
      2135287043, 511288909, 264221667, 1815983507, 2182903102, 1725427968,
      3929833459, 3575763195, 2057209343, 119870552, 1215816244, 2167282829,
      2025785744, 2734046242, 3546669913, 332344415, 3300819996, 94530506,
      1776663727, 3449946348, 2135038584, 1610971596]"
    by (simp add: padded chunks_numeral be32_def schedule_numeral next_word_eval rotr_eval
        Let_def)
  have rounds: "foldl round256 H256
       (zip K256 (schedule 48 (map be32 (chunks 16 4 (pad (bytes_of ''default'')))))) =
     [3449751642, 313637368, 3602968350, 2894901487,
      2153156677, 4203100341, 3060808079, 3624901494]"
    by (simp add: words K256_rows H256_def round256_eval rotr_eval Let_def
        del: round256.simps)
  have block: "block256 H256 (pad (bytes_of ''default'')) =
     [933818049, 3457771645, 321905296, 1373414953,
      3513049796, 2508955969, 3589542714, 871393423]"
    by (simp add: block256_eval rounds) (simp add: H256_def)
  show ?thesis
    by (simp add: Sum256_short block be_bytes_def EncodeToString_def hextable_def
        upt_conv_Cons)
qed

lemma sha256_host_suffix:
  "EncodeToString (Sum256 ''host-nsxmy-vcluster'') =
     ''2c82d3d97aae3a6e2337fab0fa78a9b623a405ad1d8c1c559a7db31068c6a236''"
proof -
  have padded: "pad (bytes_of ''host-nsxmy-vcluster'') =
     [104, 111, 115, 116, 45, 110, 115, 120, 109, 121, 45, 118, 99, 108, 117, 115,
      116, 101, 114, 128, 0, 0, 0, 0, 0, 0, 0, 0, 0, 0, 0, 0,
      0, 0, 0, 0, 0, 0, 0, 0, 0, 0, 0, 0, 0, 0, 0, 0,
      0, 0, 0, 0, 0, 0, 0, 0, 0, 0, 0, 0, 0, 0, 0, 152]"
    by (simp add: bytes_of_def pad_def be_bytes_def replicate_numeral' upt_conv_Cons)
  have words: "schedule 48 (map be32 (chunks 16 4 (pad (bytes_of ''host-nsxmy-vcluster'')))) =
     [1752134516, 762213240, 1836658038, 1668052339, 1952805504, 0,
      0, 0, 0, 0, 0, 0,
      0, 0, 0, 152, 3516435782, 3623206946,
      3165688049, 240237459, 3467589738, 3937956492, 2064356836, 147182429,
      2420518947, 276276479, 3968034618, 4120096838, 3388571028, 690116219,
      3392558859, 2801827503, 4072680070, 3321375470, 195407866, 3937994822,
      1911783628, 2095991605, 2723041974, 3247036112, 1316311510, 2670149762,
      1497878316, 533198320, 3426124652, 1791163353, 1907296000, 824128193,
      3304262817, 1024618435, 3858200004, 2817840326, 683891464, 3440429766,
      1717747771, 4088246669, 2323974718, 2486944575, 1148342246, 1127093704,
      149013650, 1753891088, 2301086244, 3163836276]"
    by (simp add: padded chunks_numeral be32_def schedule_numeral next_word_eval rotr_eval
        Let_def)
  have rounds: "foldl round256 H256
       (zip K256 (schedule 48 (map be32 (chunks 16 4 (pad (bytes_of ''host-nsxmy-vcluster'')))))) =
     [3262705010, 3209071593, 3871934270, 1428731004,
      3533026094, 2189865929, 2063194469, 216388893]"
    by (simp add: words K256_rows H256_def round256_eval rotr_eval Let_def
        del: round256.simps)
  have block: "block256 H256 (pad (bytes_of ''host-nsxmy-vcluster'')) =
     [746771417, 2058238574, 590871216, 4202211766,
      597951917, 495721557, 2591929104, 1757848118]"
    by (simp add: block256_eval rounds) (simp add: H256_def)
  show ?thesis
    by (simp add: Sum256_short block be_bytes_def EncodeToString_def hextable_def
        upt_conv_Cons)
qed

subsection \<open>Replacement never lengthens when the new text is no longer than the old\<close>

lemma length_ReplaceAll:
  "length new \<le> length old \<Longrightarrow> length (ReplaceAll s old new) \<le> length s"
proof (induction s old new rule: ReplaceAll.induct)
  case (1 old new)
  then show ?case by simp
next
  case (2 c cs old new)
  show ?case
  proof (cases "old \<noteq> [] \<and> prefix old (c # cs)")
    case True
    then have "length old \<le> length (c # cs)"
      by (intro prefix_length_le) simp
    moreover have "length (ReplaceAll (drop (length old) (c # cs)) old new)
        \<le> length (drop (length old) (c # cs))"
      using 2 True by blast
    ultimately show ?thesis
      using True 2(3) by simp
  next
    case False
    then have "length (ReplaceAll cs old new) \<le> length cs"
      using 2 by blast
    with False show ?thesis by auto
  qed
qed

text \<open>
  C1. For every list of input strings the result of \<open>SafeConcatName\<close> has at most 63
  characters, and when the join of the inputs with \<open>-\<close> has at most 63 characters the
  result is that join, unchanged.
\<close>

theorem SafeConcatName_bounded:
  "length (SafeConcatName name) \<le> 63 \<and>
   (length (Join name ''-'') \<le> 63 \<longrightarrow> SafeConcatName name = Join name ''-'')"
proof -
  let ?j = "Join name ''-''"
  let ?t = "take 52 ?j @ ''-'' @ take 10 (EncodeToString (Sum256 ?j))"
  have "length (ReplaceAll ?t ''.-'' ''-'') \<le> length ?t"
    by (rule length_ReplaceAll) simp
  moreover have "length ?t \<le> 63"
    by (simp add: length_hex_Sum256)
  ultimately have "length (ReplaceAll ?t ''.-'' ''-'') \<le> 63"
    by (rule order_trans)
  then show ?thesis
    by (simp add: SafeConcatName_def Let_def)
qed

theorem SafeConcatName_bounded_witness:
  "length (SafeConcatName [''vcluster'', ''ns'']) \<le> 63 \<and>
   length (Join [''vcluster'', ''ns''] ''-'') \<le> 63 \<and>
   SafeConcatName [''vcluster'', ''ns''] = ''vcluster-ns''"
  using SafeConcatName_bounded [of "[''vcluster'', ''ns'']"] by simp

subsection \<open>SafeConcatName and the substring of a dot and a dash\<close>

lemma Contains_set: "Contains s sub \<Longrightarrow> set sub \<subseteq> set s"
proof (induction s)
  case Nil
  then show ?case by simp
next
  case (Cons c cs)
  from Cons.prems have "prefix sub (c # cs) \<or> Contains cs sub"
    by simp
  then show ?case
  proof
    assume "prefix sub (c # cs)"
    then show ?thesis by (rule set_mono_prefix)
  next
    assume "Contains cs sub"
    then have "set sub \<subseteq> set cs" by (rule Cons.IH)
    then show ?thesis by auto
  qed
qed

lemma ReplaceAll_dash_hd:
  "ReplaceAll s ''.-'' ''-'' = CHR ''-'' # r \<Longrightarrow> prefix ''-'' s \<or> prefix ''.-'' s"
  by (cases s) (auto split: if_splits)

lemma ReplaceAll_no_dot_dash:
  "\<not> Contains s ''..-'' \<Longrightarrow> \<not> Contains (ReplaceAll s ''.-'' ''-'') ''.-''"
proof (induction "length s" arbitrary: s rule: less_induct)
  case less
  show ?case
  proof (cases s)
    case Nil
    then show ?thesis by simp
  next
    case (Cons c cs)
    show ?thesis
    proof (cases "prefix ''.-'' s")
      case True
      then obtain rest where s: "s = CHR ''.'' # CHR ''-'' # rest"
        by (auto simp: prefix_def)
      then have "\<not> Contains rest ''..-''"
        using less.prems by auto
      moreover have "length rest < length s"
        using s by simp
      ultimately have "\<not> Contains (ReplaceAll rest ''.-'' ''-'') ''.-''"
        using less.hyps by blast
      then show ?thesis
        using s by simp
    next
      case False
      have "\<not> Contains cs ''..-''"
        using less.prems Cons by auto
      then have IH: "\<not> Contains (ReplaceAll cs ''.-'' ''-'') ''.-''"
        using less.hyps [of cs] Cons by simp
      have R: "ReplaceAll s ''.-'' ''-'' = c # ReplaceAll cs ''.-'' ''-''"
        using False Cons by auto
      have "\<not> prefix ''.-'' (c # ReplaceAll cs ''.-'' ''-'')"
      proof
        assume p: "prefix ''.-'' (c # ReplaceAll cs ''.-'' ''-'')"
        then have c: "c = CHR ''.''" by simp
        from p obtain r where "ReplaceAll cs ''.-'' ''-'' = CHR ''-'' # r"
          by (auto simp: prefix_def)
        then have "prefix ''-'' cs \<or> prefix ''.-'' cs"
          by (rule ReplaceAll_dash_hd)
        then show False
        proof
          assume "prefix ''-'' cs"
          then show False using False Cons c by (auto simp: prefix_def)
        next
          assume "prefix ''.-'' cs"
          then have "prefix ''..-'' (c # cs)" using c by auto
          then have "Contains (c # cs) ''..-''" by (simp only: Contains.simps) simp
          then show False using less.prems Cons by blast
        qed
      qed
      then show ?thesis
        using IH R by simp
    qed
  qed
qed

lemma Contains_append_dash:
  "CHR ''-'' \<notin> set h \<Longrightarrow> Contains (a @ ''-'' @ h) ''..-'' \<Longrightarrow> Contains (a @ ''-'') ''..-''"
proof (induction a)
  case Nil
  then show ?case by (auto dest: Contains_set)
next
  case (Cons c a)
  show ?case
  proof (cases "prefix ''..-'' ((c # a) @ ''-'' @ h)")
    case True
    then have "prefix ''..-'' ((c # a) @ ''-'')"
    proof (cases a)
      case Nil
      with True show ?thesis by simp
    next
      case outer: (Cons d a')
      show ?thesis
      proof (cases a')
        case Nil
        with True outer show ?thesis by auto
      next
        case (Cons e a'')
        with True outer show ?thesis by auto
      qed
    qed
    then show ?thesis
      by (simp only: append_Cons Contains.simps simp_thms)
  next
    case False
    have "prefix ''..-'' ((c # a) @ ''-'' @ h) \<or> Contains (a @ ''-'' @ h) ''..-''"
      using Cons.prems(2) by (simp only: append_Cons Contains.simps)
    with False have "Contains (a @ ''-'' @ h) ''..-''"
      by blast
    then have "Contains (a @ ''-'') ''..-''"
      using Cons.IH Cons.prems(1) by blast
    then show ?thesis
      by (simp only: append_Cons Contains.simps simp_thms)
  qed
qed

lemma ReplaceAll_Nil: "new \<noteq> [] \<Longrightarrow> (ReplaceAll s old new = []) = (s = [])"
  by (cases s) auto

text \<open>
  C5. The claim that no result of \<open>SafeConcatName\<close> contains \<open>.-\<close> fails: a join of at
  most 63 characters is returned as it is. What holds: when the join is longer than 63
  characters and its first 52 characters followed by \<open>-\<close> do not contain \<open>..-\<close>, the
  result does not contain \<open>.-\<close>.
\<close>

theorem SafeConcatName_no_dot_dash:
  "63 < length (Join name ''-'') \<Longrightarrow>
   \<not> Contains (take 52 (Join name ''-'') @ ''-'') ''..-'' \<Longrightarrow>
   \<not> Contains (SafeConcatName name) ''.-''"
proof -
  assume long: "63 < length (Join name ''-'')"
    and nodots: "\<not> Contains (take 52 (Join name ''-'') @ ''-'') ''..-''"
  let ?j = "Join name ''-''"
  let ?h = "take 10 (EncodeToString (Sum256 ?j))"
  have "\<not> Contains (take 52 ?j @ ''-'' @ ?h) ''..-''"
    using nodots Contains_append_dash [OF hex_no_dash] by blast
  then have "\<not> Contains (ReplaceAll (take 52 ?j @ ''-'' @ ?h) ''.-'' ''-'') ''.-''"
    by (rule ReplaceAll_no_dot_dash)
  then show ?thesis
    using long by (simp add: SafeConcatName_def Let_def)
qed

theorem SafeConcatName_dot_dash_counterexample:
  "Contains (SafeConcatName [''a.'', ''b'']) ''.-''"
  by (simp add: SafeConcatName_def)

theorem SafeConcatName_no_dot_dash_witness:
  "63 < length (Join [''my.pod'', long_name] ''-'') \<and>
   \<not> Contains (take 52 (Join [''my.pod'', long_name] ''-'') @ ''-'') ''..-'' \<and>
   \<not> Contains (SafeConcatName [''my.pod'', long_name]) ''.-''"
proof -
  have 1: "63 < length (Join [''my.pod'', long_name] ''-'')"
    by (simp add: long_name_def)
  have 2: "\<not> Contains (take 52 (Join [''my.pod'', long_name] ''-'') @ ''-'') ''..-''"
    by (simp add: long_name_def)
  show ?thesis
    using 1 2 SafeConcatName_no_dot_dash [OF 1 2] by simp
qed

subsection \<open>Names and namespaces of the host\<close>

text \<open>
  C8. \<open>HostNameCluster\<close> of the empty name is the empty string, not the concatenation
  of the literal, the separators, the current host namespace and the vcluster
  identity; of a non-empty name it is \<open>SafeConcatName\<close> of \<open>vcluster\<close>, the name, \<open>x\<close>, the
  current host namespace, \<open>x\<close> and the vcluster identity.
\<close>

theorem HostNameCluster_cases:
  "HostNameCluster P s [] = [] \<and>
   HostNameCluster P s [] \<noteq>
     SafeConcatName [''vcluster'', [], ''x'', currentNamespace s, ''x'', VClusterName P] \<and>
   (name \<noteq> [] \<longrightarrow>
     HostNameCluster P s name =
       SafeConcatName [''vcluster'', name, ''x'', currentNamespace s, ''x'', VClusterName P])"
  by (simp add: HostNameCluster_def SafeConcatName_def Let_def ReplaceAll_Nil)

text \<open>
  C6. For a virtual namespace that no administrator-declared mapping covers,
  \<open>HostNamespace\<close> is the namespace prefix, \<open>-\<close>, the first 8 hex characters of the
  SHA-256 digest of the virtual namespace, \<open>-\<close>, and the first 8 hex characters of the
  digest of the current host namespace, \<open>x\<close> and the vcluster identity: a function of
  these inputs alone, so deriving it again gives the same result.
\<close>

theorem HostNamespace_derived:
  "snd (VirtualNamespaceMatchesMapping c vNamespace) = False \<Longrightarrow>
   HostNamespace P s c vNamespace =
     getNamespacePrefix s @ ''-'' @ take 8 (EncodeToString (Sum256 vNamespace)) @ ''-'' @
     take 8 (EncodeToString (Sum256 (currentNamespace s @ ''x'' @ VClusterName P))) \<and>
   length (take 8 (EncodeToString (Sum256 vNamespace))) = 8 \<and>
   length (take 8 (EncodeToString (Sum256 (currentNamespace s @ ''x'' @ VClusterName P)))) = 8"
  by (cases "VirtualNamespaceMatchesMapping c vNamespace")
    (simp add: HostNamespace_def hostNamespace_def getNamespaceSuffix_def length_hex_Sum256)

theorem HostNameCluster_cases_witness:
  "HostNameCluster example_package (NewMultiNamespaceTranslator ''host-ns'') [] = [] \<and>
   ''node-1'' \<noteq> [] \<and>
   HostNameCluster example_package (NewMultiNamespaceTranslator ''host-ns'') ''node-1'' =
     ''vcluster-node-1-x-host-ns-x-my-vcluster''"
  using HostNameCluster_cases [of example_package "NewMultiNamespaceTranslator ''host-ns''" "''node-1''"]
  by (simp add: example_package_def NewMultiNamespaceTranslator_def SafeConcatName_def)

theorem HostNamespace_derived_witness:
  "snd (VirtualNamespaceMatchesMapping (Some example_context) ''default'') = False \<and>
   HostNamespace example_package (NewMultiNamespaceTranslator ''host-ns'') (Some example_context)
       ''default'' = ''vcluster-37a8eec1-2c82d3d9''"
proof -
  have miss: "snd (VirtualNamespaceMatchesMapping (Some example_context) ''default'') = False"
    by (simp add: VirtualNamespaceMatchesMapping_def example_context_def)
  show ?thesis
    using miss HostNamespace_derived [OF miss, of example_package "NewMultiNamespaceTranslator ''host-ns''"]
    by (simp add: example_package_def NewMultiNamespaceTranslator_def getNamespacePrefix_def
        sha256_default sha256_host_suffix)
qed

subsection \<open>The merge, whatever the order of its loops\<close>

lemma exists_iff: "exists a k \<longleftrightarrow> k \<in> set a"
  by (induction a) auto

lemma applyMaps_from_snd:
  "snd (applyMaps_from opts kvs (ret, mk)) =
     mk @ filter (\<lambda>k. k \<notin> set (ExcludeKeys opts)) (map fst kvs)"
  by (induction kvs arbitrary: ret mk) (auto simp: exists_iff)

lemma applyMaps_from_fst:
  "distinct (map fst kvs) \<Longrightarrow>
   map_of (fst (applyMaps_from opts kvs (ret, mk))) k =
     (if k \<notin> set (ExcludeKeys opts) \<and> k \<in> fst ` set kvs then map_of kvs k else map_of ret k)"
proof (induction kvs arbitrary: ret mk)
  case Nil
  then show ?case by simp
next
  case (Cons kv kvs)
  obtain k' v' where kv: "kv = (k', v')" by (cases kv)
  have d: "distinct (map fst kvs)" and n: "k' \<notin> fst ` set kvs"
    using Cons.prems kv by auto
  show ?case
    using Cons.IH [OF d] n kv
    by (auto simp: exists_iff update_conv' image_iff)
qed

lemma applyMaps_to_map_of:
  "distinct (map fst kvs) \<Longrightarrow>
   map_of (applyMaps_to opts mk kvs ret) k =
     (if k \<in> fst ` set kvs \<and>
         (k \<in> set (ExcludeKeys opts) \<or> (k \<notin> set mk \<and> k \<notin> set (ManagedKeys opts)))
      then map_of kvs k else map_of ret k)"
proof (induction kvs arbitrary: ret)
  case Nil
  then show ?case by simp
next
  case (Cons kv kvs)
  obtain k' v' where kv: "kv = (k', v')" by (cases kv)
  have d: "distinct (map fst kvs)" and n: "k' \<notin> fst ` set kvs"
    using Cons.prems kv by auto
  show ?case
    using Cons.IH [OF d] n kv
    by (auto simp: exists_iff update_conv' image_iff)
qed

lemma applyMaps_map_of:
  assumes "distinct (map fst (entries fromMap))" and "distinct (map fst (entries toMap))"
  shows "map_of (fst (applyMaps fromMap toMap opts)) k =
     (if k \<in> set (ExcludeKeys opts) then map_of (entries toMap) k
      else if k \<in> fst ` set (entries fromMap) then map_of (entries fromMap) k
      else if k \<in> set (ManagedKeys opts) then None
      else map_of (entries toMap) k)"
proof -
  obtain r mk where f: "applyMaps_from opts (entries fromMap) ([], []) = (r, mk)"
    by (cases "applyMaps_from opts (entries fromMap) ([], [])")
  have mk: "mk = filter (\<lambda>k. k \<notin> set (ExcludeKeys opts)) (map fst (entries fromMap))"
    using applyMaps_from_snd [of opts "entries fromMap" "[]" "[]"] f by simp
  have r: "map_of r k =
     (if k \<notin> set (ExcludeKeys opts) \<and> k \<in> fst ` set (entries fromMap)
      then map_of (entries fromMap) k else None)"
    using applyMaps_from_fst [OF assms(1), of opts "[]" "[]" k] f by simp
  have "fst (applyMaps fromMap toMap opts) = applyMaps_to opts mk (entries toMap) r"
    by (simp add: applyMaps_def f)
  moreover have "k \<notin> fst ` set (entries toMap) \<Longrightarrow> map_of (entries toMap) k = None"
    by (simp add: map_of_eq_None_iff)
  ultimately show ?thesis
    using applyMaps_to_map_of [OF assms(2), of opts mk r k]
    by (simp add: r mk)
qed

lemma applyMaps_managed:
  "snd (applyMaps fromMap toMap opts) =
     Join (sort (filter (\<lambda>k. k \<notin> set (ExcludeKeys opts)) (map fst (entries fromMap)))) ''\<newline>''"
proof -
  obtain r mk where f: "applyMaps_from opts (entries fromMap) ([], []) = (r, mk)"
    by (cases "applyMaps_from opts (entries fromMap) ([], [])")
  have mk: "mk = filter (\<lambda>k. k \<notin> set (ExcludeKeys opts)) (map fst (entries fromMap))"
    using applyMaps_from_snd [of opts "entries fromMap" "[]" "[]"] f by simp
  show ?thesis
    by (simp add: applyMaps_def f mk)
qed

lemma sort_distinct_set:
  "distinct xs \<Longrightarrow> set xs = A \<Longrightarrow> sort xs = sorted_list_of_set A"
  by (metis sorted_list_of_set_sort_remdups distinct_remdups_id)

lemma keys_of_map: "fst ` set kvs = dom (map_of kvs)"
  by (simp add: dom_map_of_conv_image_fst)

text \<open>
  C3. With source \<open>{a:1, b:2}\<close>, target \<open>{b:9, c:3}\<close>, no managed keys from before and no
  exclusions, the merge yields the map \<open>{a:1, b:2, c:3}\<close> and the managed-key list
  \<open>a\<newline>b\<close>; run again with source \<open>{a:1}\<close> and, as target, that result with the managed
  keys \<open>a\<newline>b\<close>, it yields \<open>{a:1, c:3}\<close>: \<open>b\<close>, managed and gone from the source, is
  deleted, and \<open>c\<close>, never managed, is kept. This holds in whatever order the maps are
  ranged over.
\<close>

theorem applyMaps_example:
  assumes "distinct (map fst src)" and "map_of src = [''a'' \<mapsto> ''1'', ''b'' \<mapsto> ''2'']"
    and "distinct (map fst tgt)" and "map_of tgt = [''b'' \<mapsto> ''9'', ''c'' \<mapsto> ''3'']"
    and "distinct (map fst src')" and "map_of src' = [''a'' \<mapsto> ''1'']"
    and "distinct (map fst tgt')"
    and "map_of tgt' = map_of (fst (applyMaps (Some src) (Some tgt) \<lparr>ManagedKeys = [], ExcludeKeys = []\<rparr>))"
  shows "map_of (fst (applyMaps (Some src) (Some tgt) \<lparr>ManagedKeys = [], ExcludeKeys = []\<rparr>))
           = [''a'' \<mapsto> ''1'', ''b'' \<mapsto> ''2'', ''c'' \<mapsto> ''3''] \<and>
         snd (applyMaps (Some src) (Some tgt) \<lparr>ManagedKeys = [], ExcludeKeys = []\<rparr>)
           = ''a\<newline>b'' \<and>
         map_of (fst (applyMaps (Some src') (Some tgt')
               \<lparr>ManagedKeys = strings_Split ''a\<newline>b'' ''\<newline>'', ExcludeKeys = []\<rparr>))
           = [''a'' \<mapsto> ''1'', ''c'' \<mapsto> ''3'']"
proof -
  let ?o = "\<lparr>ManagedKeys = [], ExcludeKeys = []\<rparr>"
  have ks: "fst ` set src = {''a'', ''b''}"
    using assms(2) by (auto simp: keys_of_map)
  have 1: "map_of (fst (applyMaps (Some src) (Some tgt) ?o))
           = [''a'' \<mapsto> ''1'', ''b'' \<mapsto> ''2'', ''c'' \<mapsto> ''3'']"
  proof
    fix k
    show "map_of (fst (applyMaps (Some src) (Some tgt) ?o)) k
           = [''a'' \<mapsto> ''1'', ''b'' \<mapsto> ''2'', ''c'' \<mapsto> ''3''] k"
      using assms(1,3) by (simp add: applyMaps_map_of entries_def ks assms(2,4))
  qed
  have "sort (map fst src) = sorted_list_of_set {''a'', ''b''}"
    using assms(1) ks by (intro sort_distinct_set) simp_all
  then have 2: "snd (applyMaps (Some src) (Some tgt) ?o) = ''a\<newline>b''"
    by (simp add: applyMaps_managed entries_def)
  have ks': "fst ` set src' = {''a''}"
    using assms(6) by (simp add: keys_of_map)
  have 3: "map_of (fst (applyMaps (Some src') (Some tgt')
               \<lparr>ManagedKeys = strings_Split ''a\<newline>b'' ''\<newline>'', ExcludeKeys = []\<rparr>))
           = [''a'' \<mapsto> ''1'', ''c'' \<mapsto> ''3'']"
  proof
    fix k
    show "map_of (fst (applyMaps (Some src') (Some tgt')
               \<lparr>ManagedKeys = strings_Split ''a\<newline>b'' ''\<newline>'', ExcludeKeys = []\<rparr>)) k
           = [''a'' \<mapsto> ''1'', ''c'' \<mapsto> ''3''] k"
      using assms(5,7)
      by (simp add: applyMaps_map_of entries_def ks' assms(6,8) 1 strings_Split_def)
  qed
  from 1 2 3 show ?thesis by blast
qed


theorem applyMaps_example_witness:
  "applyMaps (Some [(''a'', ''1''), (''b'', ''2'')]) (Some [(''b'', ''9''), (''c'', ''3'')])
       \<lparr>ManagedKeys = [], ExcludeKeys = []\<rparr>
     = ([(''a'', ''1''), (''b'', ''2''), (''c'', ''3'')], ''a\<newline>b'') \<and>
   map_of (fst (applyMaps (Some [(''a'', ''1'')])
                  (Some [(''a'', ''1''), (''b'', ''2''), (''c'', ''3'')])
                  \<lparr>ManagedKeys = strings_Split ''a\<newline>b'' ''\<newline>'', ExcludeKeys = []\<rparr>))
     = [''a'' \<mapsto> ''1'', ''c'' \<mapsto> ''3'']"
proof -
  let ?src = "[(''a'', ''1''), (''b'', ''2'')]" and ?tgt = "[(''b'', ''9''), (''c'', ''3'')]"
  let ?src' = "[(''a'', ''1'')]" and ?tgt' = "[(''a'', ''1''), (''b'', ''2''), (''c'', ''3'')]"
  have run: "applyMaps (Some ?src) (Some ?tgt) \<lparr>ManagedKeys = [], ExcludeKeys = []\<rparr>
      = (?tgt', ''a\<newline>b'')"
    by (simp add: applyMaps_def entries_def)
  have h1: "distinct (map fst ?src)" and h3: "distinct (map fst ?tgt)"
    and h5: "distinct (map fst ?src')" and h7: "distinct (map fst ?tgt')"
    by simp_all
  have h2: "map_of ?src = [''a'' \<mapsto> ''1'', ''b'' \<mapsto> ''2'']"
    and h4: "map_of ?tgt = [''b'' \<mapsto> ''9'', ''c'' \<mapsto> ''3'']"
    and h6: "map_of ?src' = [''a'' \<mapsto> ''1'']"
    by auto
  have h8: "map_of ?tgt' =
      map_of (fst (applyMaps (Some ?src) (Some ?tgt) \<lparr>ManagedKeys = [], ExcludeKeys = []\<rparr>))"
    by (simp only: run fst_conv)
  show ?thesis
    using applyMaps_example [OF h1 h2 h3 h4 h5 h6 h7 h8] run by simp
qed

text \<open>
  The same two runs through \<open>applyAnnotations\<close>, which keeps the managed keys in the
  bookkeeping annotation of the target and reads them from there.
\<close>

lemma applyAnnotations_example:
  "applyAnnotations example_package (Some [(''a'', ''1''), (''b'', ''2'')])
       (Some [(''b'', ''9''), (''c'', ''3'')]) []
     = [(''a'', ''1''), (''b'', ''2''), (''c'', ''3''),
        (''vcluster.loft.sh/managed-annotations'', ''a\<newline>b'')] \<and>
   applyAnnotations example_package (Some [(''a'', ''1'')])
       (Some [(''a'', ''1''), (''b'', ''2''), (''c'', ''3''),
              (''vcluster.loft.sh/managed-annotations'', ''a\<newline>b'')]) []
     = [(''a'', ''1''), (''c'', ''3''), (''vcluster.loft.sh/managed-annotations'', ''a'')]"
  by (simp add: applyAnnotations_def applyMaps_def entries_def index_def strings_Split_def
      example_package_def)

subsection \<open>Owner references\<close>

lemma GetControllerOf_refs_iff:
  "GetControllerOf_refs refs \<noteq> None \<longleftrightarrow> (\<exists>r \<in> set refs. Controller r = Some True)"
  by (induction refs) auto

lemma GetControllerOf_refs_Some_iff:
  "(\<exists>y. GetControllerOf_refs refs = Some y) \<longleftrightarrow> (\<exists>r \<in> set refs. Controller r = Some True)"
  using GetControllerOf_refs_iff [of refs] by simp

text \<open>
  C10. \<open>GetOwnerReference\<close> returns no owner reference when the owner is unset or has
  an empty name, unique identifier, API version or kind; otherwise it returns exactly
  one owner reference with the owner's API version, kind, name and unique identifier,
  whose controller flag is true exactly when the object passed in has a controller
  owner reference already.
\<close>

theorem GetOwnerReference_cases:
  "GetOwnerReference None object = [] \<and>
   (objName owner = [] \<or> objUID owner = [] \<or> objAPIVersion owner = [] \<or> objKind owner = []
      \<longrightarrow> GetOwnerReference (Some owner) object = []) \<and>
   (objName owner \<noteq> [] \<and> objUID owner \<noteq> [] \<and> objAPIVersion owner \<noteq> [] \<and> objKind owner \<noteq> []
      \<longrightarrow> GetOwnerReference (Some owner) object =
           [\<lparr>APIVersion = objAPIVersion owner, Kind = objKind owner, Name = objName owner,
             UID = objUID owner,
             Controller = Some (\<exists>ob. object = Some ob \<and>
                                  (\<exists>r \<in> set (objOwnerReferences ob). Controller r = Some True)),
             BlockOwnerDeletion = None\<rparr>])"
  by (cases object)
    (simp_all add: GetOwnerReference_def GetControllerOf_def GetControllerOf_refs_Some_iff Let_def)

theorem GetOwnerReference_cases_witness:
  "GetOwnerReference (Some example_owner) (Some example_controlled) =
     [\<lparr>APIVersion = ''v1'', Kind = ''Service'', Name = ''my-vcluster'', UID = ''7e0c6f1a'',
       Controller = Some True, BlockOwnerDeletion = None\<rparr>] \<and>
   GetOwnerReference (Some example_owner) (Some example_owner) =
     [\<lparr>APIVersion = ''v1'', Kind = ''Service'', Name = ''my-vcluster'', UID = ''7e0c6f1a'',
       Controller = Some False, BlockOwnerDeletion = None\<rparr>] \<and>
   objUID (example_owner\<lparr>objUID := []\<rparr>) = [] \<and>
   GetOwnerReference (Some (example_owner\<lparr>objUID := []\<rparr>)) (Some example_controlled) = []"
  using GetOwnerReference_cases [of "Some example_controlled" example_owner]
    GetOwnerReference_cases [of "Some example_owner" example_owner]
    GetOwnerReference_cases [of "Some example_controlled" "example_owner\<lparr>objUID := []\<rparr>"]
  by (simp add: example_owner_def example_controlled_def)

subsection \<open>Label maps and nil\<close>

text \<open>
  C9. \<open>VirtualLabelsMap\<close> and \<open>HostLabelsMap\<close> keep \<open>nil\<close>: whatever the target map, the
  namespace and the exclusion list, a \<open>nil\<close> source-side label map gives \<open>nil\<close> (and
  leaves the context as it is), whereas a source-side map that is not \<open>nil\<close>, empty
  or not, gives a map that is not \<open>nil\<close>.
\<close>

theorem LabelsMap_nil_preserving:
  "VirtualLabelsMap P D c None vLabels vNamespace excluded = (None, c) \<and>
   HostLabelsMap P D c None pLabels vNamespace = (None, c) \<and>
   fst (VirtualLabelsMap P D c (Some m) vLabels vNamespace excluded) \<noteq> None \<and>
   fst (HostLabelsMap P D c (Some m) pLabels vNamespace) \<noteq> None"
  by (simp add: VirtualLabelsMap_def HostLabelsMap_def Let_def split: prod.splits)

theorem LabelsMap_nil_preserving_witness:
  "VirtualLabelsMap example_package example_translator (Some example_context) None
     (Some [(''app'', ''web'')]) ''default'' [] = (None, Some example_context) \<and>
   HostLabelsMap example_package example_translator (Some example_context) None
     (Some [(''app'', ''web'')]) ''default'' = (None, Some example_context) \<and>
   fst (VirtualLabelsMap example_package example_translator (Some example_context) (Some [])
     (Some [(''app'', ''web'')]) ''default'' []) = Some [] \<and>
   fst (HostLabelsMap example_package example_translator (Some example_context) (Some [])
     (Some [(''app'', ''web'')]) ''default'') = Some []"
  using LabelsMap_nil_preserving [of example_package example_translator "Some example_context"
      "Some [(''app'', ''web'')]" "''default''" "[]" "Some [(''app'', ''web'')]" "[]"]
  by (simp add: VirtualLabelsMap_def HostLabelsMap_def example_translator_def
      multiNamespaceTranslator_def SingleNamespaceTarget_def maps_Copy_def entries_def)

subsection \<open>Selector rewriting keeps a key without translation\<close>

lemma vme_acc:
  "set acc \<subseteq> set (fst (virtual_match_expressions f rs (acc, c)))"
proof (induction rs arbitrary: acc c)
  case Nil
  then show ?case by simp
next
  case (Cons r rs)
  obtain p ok c' where f: "f c (Key r) = ((p, ok), c')"
    by (metis surj_pair)
  show ?case
    using Cons [of "acc @ [\<lparr>Key = (if \<not> ok then Key r else p), Operator = Operator r, Values = Values r\<rparr>]" c']
    by (auto simp: f)
qed

lemma vme_miss:
  assumes "r \<in> set rs" and "\<And>c. I c \<Longrightarrow> \<not> snd (fst (f c (Key r)))"
    and "\<And>c k'. I c \<Longrightarrow> I (snd (f c k'))" and "I c"
  shows "r \<in> set (fst (virtual_match_expressions f rs (acc, c)))"
  using assms(1,4)
proof (induction rs arbitrary: acc c)
  case Nil
  then show ?case by simp
next
  case (Cons r' rs)
  obtain p ok c' where f: "f c (Key r') = ((p, ok), c')"
    by (metis surj_pair)
  let ?acc = "acc @ [\<lparr>Key = (if \<not> ok then Key r' else p), Operator = Operator r', Values = Values r'\<rparr>]"
  show ?case
  proof (cases "r = r'")
    case True
    have "\<not> ok" using assms(2) [of c] Cons.prems(2) f True by simp
    then have "r \<in> set ?acc" using True by simp
    moreover have "set ?acc \<subseteq> set (fst (virtual_match_expressions f rs (?acc, c')))"
      by (rule vme_acc)
    ultimately have "r \<in> set (fst (virtual_match_expressions f rs (?acc, c')))"
      by (rule rev_subsetD)
    then show ?thesis
      by (simp add: f)
  next
    case False
    then have "r \<in> set rs" using Cons.prems by simp
    moreover have "I c'" using assms(3) [of c "Key r'"] Cons.prems(2) f by simp
    ultimately show ?thesis
      using Cons.IH [of c' ?acc] by (simp add: f)
  qed
qed

lemma keys_update: "fst ` set (AList.update k v al) = insert k (fst ` set al)"
  by (simp add: dom_map_of_conv_image_fst [symmetric] update_conv' del: dom_map_of_conv_image_fst)

lemma vml_acc:
  "fst ` set acc \<subseteq> fst ` set (fst (virtual_match_labels f kvs (acc, c)))"
proof (induction kvs arbitrary: acc c)
  case Nil
  then show ?case by simp
next
  case (Cons kv kvs)
  obtain k v where kv: "kv = (k, v)" by (cases kv)
  obtain p ok c' where f: "f c k = ((p, ok), c')"
    by (metis surj_pair)
  show ?case
    using Cons [of "AList.update (if \<not> ok then k else p) v acc" c']
    by (auto simp: f kv keys_update)
qed

lemma vml_inv:
  assumes "\<And>c k'. I c \<Longrightarrow> I (snd (f c k'))" and "I c"
  shows "I (snd (virtual_match_labels f kvs (acc, c)))"
  using assms(2)
proof (induction kvs arbitrary: acc c)
  case Nil
  then show ?case by simp
next
  case (Cons kv kvs)
  obtain k v where kv: "kv = (k, v)" by (cases kv)
  obtain p ok c' where f: "f c k = ((p, ok), c')"
    by (metis surj_pair)
  have "I c'" using assms(1) [of c k] Cons.prems f by simp
  then show ?case
    using Cons.IH [of c'] by (simp add: f kv)
qed

lemma vml_miss:
  assumes "k \<in> fst ` set kvs" and "\<And>c. I c \<Longrightarrow> \<not> snd (fst (f c k))"
    and "\<And>c k'. I c \<Longrightarrow> I (snd (f c k'))" and "I c"
  shows "k \<in> fst ` set (fst (virtual_match_labels f kvs (acc, c)))"
  using assms(1,4)
proof (induction kvs arbitrary: acc c)
  case Nil
  then show ?case by simp
next
  case (Cons kv kvs)
  obtain k' v where kv: "kv = (k', v)" by (cases kv)
  obtain p ok c' where f: "f c k' = ((p, ok), c')"
    by (metis surj_pair)
  let ?acc = "AList.update (if \<not> ok then k' else p) v acc"
  show ?case
  proof (cases "k = k'")
    case True
    have "\<not> ok" using assms(2) [of c] Cons.prems(2) f True by simp
    then have "k \<in> fst ` set ?acc" using True by (simp add: keys_update)
    moreover have "fst ` set ?acc \<subseteq> fst ` set (fst (virtual_match_labels f kvs (?acc, c')))"
      by (rule vml_acc)
    ultimately have "k \<in> fst ` set (fst (virtual_match_labels f kvs (?acc, c')))"
      by (rule rev_subsetD)
    then show ?thesis
      by (simp add: f kv)
  next
    case False
    then have "k \<in> fst ` set kvs" using Cons.prems kv by auto
    moreover have "I c'" using assms(3) [of c k'] Cons.prems(2) f by simp
    ultimately show ?thesis
      using Cons.IH [of c' ?acc] by (simp add: f kv)
  qed
qed

text \<open>
  C4. The claim that a rewrite in the host-to-virtual direction surfaces a key without
  known translation as having no equivalent fails: \<open>virtualLabelSelector\<close> returns the
  selector only and keeps such a key as it is. What holds, for a translation function
  \<open>f\<close> that reports no known translation of \<open>k\<close> in every context the rewrite can
  reach (\<open>I\<close> holds of the context at the start and after every call of \<open>f\<close>): each
  requirement with key \<open>k\<close> is in the output unchanged, and if \<open>k\<close> is a key of the
  match labels it is a key of the output's match labels.
\<close>

theorem virtualLabelSelector_miss_kept:
  assumes "I c"
    and "\<And>c k'. I c \<Longrightarrow> I (snd (f c k'))"
    and "\<And>c. I c \<Longrightarrow> \<not> snd (fst (f c k))"
  shows "\<exists>out. fst (virtualLabelSelector c (Some sel) f) = Some out \<and>
           (\<forall>r \<in> set (MatchExpressions sel). Key r = k \<longrightarrow> r \<in> set (MatchExpressions out)) \<and>
           (k \<in> fst ` set (entries (MatchLabels sel)) \<longrightarrow>
              k \<in> fst ` set (entries (MatchLabels out)))"
proof (cases "MatchLabels sel")
  case None
  have "r \<in> set (fst (virtual_match_expressions f (MatchExpressions sel) ([], c)))"
    if "r \<in> set (MatchExpressions sel)" and "Key r = k" for r
    using vme_miss [of r "MatchExpressions sel" I f c "[]"] that assms by simp
  then show ?thesis
    using None by (auto simp: virtualLabelSelector_def entries_def split: prod.splits)
next
  case (Some kvs)
  obtain m c1 where l: "virtual_match_labels f kvs ([], c) = (m, c1)"
    by (metis surj_pair)
  have c1: "I c1"
    using vml_inv [of I f c kvs "[]"] assms(1,2) l by simp
  have "k \<in> fst ` set kvs \<Longrightarrow> k \<in> fst ` set m"
    using vml_miss [of k kvs I f c "[]"] assms l by simp
  moreover have "r \<in> set (fst (virtual_match_expressions f (MatchExpressions sel) ([], c1)))"
    if "r \<in> set (MatchExpressions sel)" and "Key r = k" for r
    using vme_miss [of r "MatchExpressions sel" I f c1 "[]"] that assms c1 by simp
  ultimately show ?thesis
    using Some l by (auto simp: virtualLabelSelector_def entries_def split: prod.splits)
qed

theorem virtualLabelSelector_miss_counterexample:
  "fst (trVirtualLabelCluster example_translator (Some example_context) unknown_key) = ([], False) \<and>
   fst (VirtualLabelSelectorCluster example_translator (Some example_context)
          (Some unknown_selector)) = Some unknown_selector"
  by (simp add: VirtualLabelSelectorCluster_def virtualLabelSelector_def example_translator_def
      multiNamespaceTranslator_def VirtualLabelCluster_def keyMatchesSyncedLabels_def
      example_context_def example_package_def unknown_key_def unknown_selector_def
      HostToVirtualLabelCluster_def recordLabelCluster_def NewMultiNamespaceTranslator_def)

lemma no_entry_preserved:
  "no_entry k c \<Longrightarrow> no_entry k (snd (VirtualLabelCluster P s c k'))"
  by (auto simp: no_entry_def VirtualLabelCluster_def recordLabelCluster_def Let_def
      HostToVirtualLabelCluster_def keyMatchesSyncedLabels_def split: option.splits if_splits)

lemma no_entry_miss:
  "no_entry k c \<Longrightarrow> prefix (LabelPrefix P) k \<Longrightarrow> \<not> snd (fst (VirtualLabelCluster P s c k))"
  by (auto simp: no_entry_def VirtualLabelCluster_def recordLabelCluster_def Let_def
      HostToVirtualLabelCluster_def keyMatchesSyncedLabels_def split: option.splits if_splits)

theorem virtualLabelSelector_miss_kept_witness:
  "\<exists>out. fst (virtualLabelSelector (Some example_context) (Some unknown_selector)
              (trVirtualLabelCluster example_translator)) = Some out \<and>
         (\<forall>r \<in> set (MatchExpressions unknown_selector).
             Key r = unknown_key \<longrightarrow> r \<in> set (MatchExpressions out)) \<and>
         (unknown_key \<in> fst ` set (entries (MatchLabels unknown_selector)) \<longrightarrow>
            unknown_key \<in> fst ` set (entries (MatchLabels out)))"
proof -
  let ?s = "NewMultiNamespaceTranslator ''host-ns''"
  have f: "trVirtualLabelCluster example_translator = VirtualLabelCluster example_package ?s"
    by (simp add: example_translator_def multiNamespaceTranslator_def)
  have p: "prefix (LabelPrefix example_package) unknown_key"
    by (simp add: example_package_def unknown_key_def)
  have i: "no_entry unknown_key (Some example_context)"
    by (simp add: no_entry_def example_context_def)
  show ?thesis
    unfolding f
    by (rule virtualLabelSelector_miss_kept [where I = "no_entry unknown_key", OF i])
      (simp_all add: no_entry_preserved no_entry_miss p)
qed

subsection \<open>Cluster-scoped label keys, there and back\<close>

lemma ReplaceAll_keeps:
  "\<not> Contains (p @ ''-'') ''.-'' \<Longrightarrow>
   ReplaceAll (p @ ''-'' @ t) ''.-'' ''-'' = p @ ReplaceAll (''-'' @ t) ''.-'' ''-''"
proof (induction p)
  case Nil
  then show ?case by simp
next
  case (Cons c p)
  have "\<not> (prefix ''.-'' (c # p @ ''-'') \<or> Contains (p @ ''-'') ''.-'')"
    using Cons.prems by (simp only: append_Cons Contains.simps simp_thms)
  then have np: "\<not> prefix ''.-'' (c # p @ ''-'')" and nc: "\<not> Contains (p @ ''-'') ''.-''"
    by blast+
  have "\<not> prefix ''.-'' (c # p @ ''-'' @ t)"
    using np by (cases p) auto
  then have "ReplaceAll ((c # p) @ ''-'' @ t) ''.-'' ''-'' = c # ReplaceAll (p @ ''-'' @ t) ''.-'' ''-''"
    by auto
  then show ?case
    using Cons.IH [OF nc] by simp
qed

lemma SafeConcatName_prefix:
  assumes "length L \<le> 52" and "\<not> Contains (L @ ''-'') ''.-''"
  shows "prefix L (SafeConcatName (L # x # xs))"
proof -
  obtain rest where j: "Join (L # x # xs) ''-'' = L @ ''-'' @ rest"
    by simp
  show ?thesis
  proof (cases "63 < length (L @ ''-'' @ rest)")
    case False
    then show ?thesis
      by (simp add: SafeConcatName_def j del: Join.simps)
  next
    case True
    let ?h = "take 10 (EncodeToString (Sum256 (L @ ''-'' @ rest)))"
    have "\<exists>t. take 52 (L @ ''-'' @ rest) @ ''-'' @ ?h = L @ ''-'' @ t"
    proof (cases "length L = 52")
      case True
      then show ?thesis by simp
    next
      case False
      then have "52 - length L = Suc (51 - length L)"
        using assms(1) by simp
      then show ?thesis by simp
    qed
    then obtain t where t: "take 52 (L @ ''-'' @ rest) @ ''-'' @ ?h = L @ ''-'' @ t"
      by blast
    have "SafeConcatName (L # x # xs)
        = ReplaceAll (take 52 (L @ ''-'' @ rest) @ ''-'' @ ?h) ''.-'' ''-''"
      using True by (simp add: SafeConcatName_def j del: Join.simps)
    then have "SafeConcatName (L # x # xs) = ReplaceAll (L @ ''-'' @ t) ''.-'' ''-''"
      by (simp only: t)
    then show ?thesis
      by (simp only: ReplaceAll_keeps [OF assms(2)] prefixI)
  qed
qed

lemma SafeConcatName_nonempty: "Join name ''-'' \<noteq> [] \<Longrightarrow> SafeConcatName name \<noteq> []"
  by (simp add: SafeConcatName_def Let_def ReplaceAll_Nil)

lemma hostLabelCluster_nonempty: "hostLabelCluster P key ns \<noteq> []"
  unfolding hostLabelCluster_def by (rule SafeConcatName_nonempty) simp

lemma hostLabelCluster_prefix:
  "length (LabelPrefix P) \<le> 52 \<Longrightarrow> \<not> Contains (LabelPrefix P @ ''-'') ''.-'' \<Longrightarrow>
   prefix (LabelPrefix P) (hostLabelCluster P key ns)"
  unfolding hostLabelCluster_def by (rule SafeConcatName_prefix)

text \<open>
  C2. The claim that every cluster-scoped virtual label key comes back from
  \<open>HostLabelCluster\<close> followed by \<open>VirtualLabelCluster\<close> fails when the derived host key
  is itself an always-synced label: it is then returned as it is. What holds: with a
  store behind the context, for a non-empty key that is an always-synced label or
  whose derived host key is not one, the translation to the host key and back, through
  the context that \<open>HostLabelCluster\<close> returns, gives the key and reports it found. The
  label prefix is a constant declared elsewhere: it is taken to have at most 52
  characters and, followed by \<open>-\<close>, no \<open>.-\<close>.
\<close>

theorem label_cluster_round_trip:
  assumes "c = Some sc" and "Store sc \<noteq> None" and "key \<noteq> []"
    and "length (LabelPrefix P) \<le> 52" and "\<not> Contains (LabelPrefix P @ ''-'') ''.-''"
    and "keyMatchesSyncedLabels c key \<or>
         \<not> keyMatchesSyncedLabels c (hostLabelCluster P key (currentNamespace s))"
  shows "fst (VirtualLabelCluster P s (snd (HostLabelCluster P s c key))
                (fst (HostLabelCluster P s c key))) = (key, True)"
proof (cases "keyMatchesSyncedLabels c key")
  case True
  then show ?thesis
    by (simp add: HostLabelCluster_def VirtualLabelCluster_def)
next
  case False
  let ?h = "hostLabelCluster P key (currentNamespace s)"
  obtain tbl where tbl: "Store sc = Some tbl"
    using assms(2) by blast
  let ?c' = "Some (sc\<lparr>Store := Some (tbl(?h \<mapsto> key))\<rparr>)"
  have h: "HostLabelCluster P s c key = (?h, ?c')"
    using False assms(1,3) tbl
    by (simp add: HostLabelCluster_def recordLabelCluster_def hostLabelCluster_nonempty Let_def)
  have "\<not> keyMatchesSyncedLabels c ?h"
    using False assms(6) by blast
  then have n: "\<not> keyMatchesSyncedLabels ?c' ?h"
    using assms(1) by (simp add: keyMatchesSyncedLabels_def)
  have p: "prefix (LabelPrefix P) ?h"
    using assms(4,5) by (rule hostLabelCluster_prefix)
  show ?thesis
    using n p by (simp add: h VirtualLabelCluster_def HostToVirtualLabelCluster_def)
qed

lemma example_host_key:
  "hostLabelCluster example_package ''app'' ''host-ns'' =
     ''vcluster.loft.sh/label-host-ns-x-my-vcluster-x-a172cedcae''"
  by (simp add: hostLabelCluster_def SafeConcatName_def example_package_def sha256_app)

theorem label_cluster_round_trip_witness:
  "fst (HostLabelCluster example_package (NewMultiNamespaceTranslator ''host-ns'')
          (Some example_context) ''app'')
     = ''vcluster.loft.sh/label-host-ns-x-my-vcluster-x-a172cedcae'' \<and>
   fst (VirtualLabelCluster example_package (NewMultiNamespaceTranslator ''host-ns'')
          (snd (HostLabelCluster example_package (NewMultiNamespaceTranslator ''host-ns'')
                  (Some example_context) ''app''))
          (fst (HostLabelCluster example_package (NewMultiNamespaceTranslator ''host-ns'')
                  (Some example_context) ''app''))) = (''app'', True)"
proof -
  have 1: "Store example_context \<noteq> None" and 2: "''app'' \<noteq> []"
    and 3: "length (LabelPrefix example_package) \<le> 52"
    and 4: "\<not> Contains (LabelPrefix example_package @ ''-'') ''.-''"
    by (simp_all add: example_context_def example_package_def)
  have 5: "keyMatchesSyncedLabels (Some example_context) ''app'' \<or>
      \<not> keyMatchesSyncedLabels (Some example_context)
          (hostLabelCluster example_package ''app''
             (currentNamespace (NewMultiNamespaceTranslator ''host-ns'')))"
    by (simp add: keyMatchesSyncedLabels_def example_context_def)
  have "fst (HostLabelCluster example_package (NewMultiNamespaceTranslator ''host-ns'')
          (Some example_context) ''app'')
     = ''vcluster.loft.sh/label-host-ns-x-my-vcluster-x-a172cedcae''"
    by (simp add: HostLabelCluster_def keyMatchesSyncedLabels_def example_context_def
        NewMultiNamespaceTranslator_def example_host_key Let_def)
  then show ?thesis
    using label_cluster_round_trip [OF refl 1 2 3 4 5] by simp
qed

theorem label_cluster_round_trip_counterexample:
  "HostLabelCluster example_package (NewMultiNamespaceTranslator ''host-ns'')
       (Some synced_context) ''app''
     = (''vcluster.loft.sh/label-host-ns-x-my-vcluster-x-a172cedcae'',
        Some (synced_context
                \<lparr>Store := Some [''vcluster.loft.sh/label-host-ns-x-my-vcluster-x-a172cedcae''
                                    \<mapsto> ''app'']\<rparr>)) \<and>
   fst (VirtualLabelCluster example_package (NewMultiNamespaceTranslator ''host-ns'')
          (Some (synced_context
                   \<lparr>Store := Some [''vcluster.loft.sh/label-host-ns-x-my-vcluster-x-a172cedcae''
                                       \<mapsto> ''app'']\<rparr>))
          ''vcluster.loft.sh/label-host-ns-x-my-vcluster-x-a172cedcae'')
     = (''vcluster.loft.sh/label-host-ns-x-my-vcluster-x-a172cedcae'', True)"
  by (simp add: HostLabelCluster_def VirtualLabelCluster_def keyMatchesSyncedLabels_def
      recordLabelCluster_def NewMultiNamespaceTranslator_def example_host_key Let_def
      synced_context_def)

subsection \<open>Schema reconciler: which failures reach the caller\<close>

lemma crd_ready_events:
  "crd_ready v name i = ((ok, r), evs) \<Longrightarrow>
   (sd, c, Some e) \<in> set evs \<Longrightarrow> r \<noteq> None \<and> sd = Virtual \<and> c = PollCRD"
  by (auto simp: crd_ready_def split: sum.splits)

lemma backoff_events:
  "(sd, c, Some e) \<in> set (snd (ExponentialBackoffWithContext done steps i (crd_ready v name))) \<Longrightarrow>
   fst (ExponentialBackoffWithContext done steps i (crd_ready v name)) \<noteq> None \<and>
   sd = Virtual \<and> (c = PollCRD \<or> c = Backoff)"
proof (induction "done" steps i "crd_ready v name" rule: ExponentialBackoffWithContext.induct)
  case (1 "done" steps i)
  show ?case
  proof (cases "steps = 0 \<or> (case done of None \<Rightarrow> False | Some d \<Rightarrow> d \<le> i)")
    case True
    then show ?thesis
      using "1.prems"
      by (subst (asm) ExponentialBackoffWithContext.simps,
          subst ExponentialBackoffWithContext.simps) (auto split: option.splits)
  next
    case False
    obtain ok r evs where c: "crd_ready v name i = ((ok, r), evs)"
      by (metis surj_pair)
    show ?thesis
    proof (cases "r = None \<and> \<not> ok")
      case True
      obtain r' evs' where rec:
        "ExponentialBackoffWithContext done (steps - 1) (Suc i) (crd_ready v name) = (r', evs')"
        by (metis surj_pair)
      have unfold: "ExponentialBackoffWithContext done steps i (crd_ready v name) = (r', evs @ evs')"
        using False True c rec
        by (subst ExponentialBackoffWithContext.simps) (simp split: option.splits)
      have "(sd, c, Some e) \<notin> set evs"
        using crd_ready_events [OF c] True by blast
      then have "(sd, c, Some e) \<in> set evs'"
        using "1.prems" unfold by simp
      then show ?thesis
        using "1.hyps" [of "(ok, r)" evs ok r] False True c rec unfold
        by (simp split: option.splits)
    next
      case stop: False
      then have "ExponentialBackoffWithContext done steps i (crd_ready v name) = (r, evs)"
        using False c
        by (subst ExponentialBackoffWithContext.simps)
          (cases ok; cases r; simp split: option.splits)
      then show ?thesis
        using "1.prems" crd_ready_events [OF c] by auto
    qed
  qed
qed


lemma KindExists_events:
  "KindExists sd cfg gvk = (r, evs) \<Longrightarrow> (sd', c, Some e) \<in> set evs \<Longrightarrow>
   r = Inl e \<and> sd' = sd \<and> (c = NewDiscoveryClient \<or> c = ServerResources)"
  by (auto simp: KindExists_def split: option.splits sum.splits)

lemma ConvertKindToResource_events:
  "ConvertKindToResource sd cfg gvk = (r, evs) \<Longrightarrow> (sd', c, Some e) \<in> set evs \<Longrightarrow>
   r = Inl e \<and> sd' = sd \<and> (c = NewDiscoveryClient \<or> c = ServerResources)"
  by (auto simp: ConvertKindToResource_def split: option.splits sum.splits)

lemma crd_exists_events:
  "ev \<in> set (snd (crd_exists v gvk api evs)) \<Longrightarrow> ev \<in> set evs \<or> tolerated ev"
  by (auto simp: crd_exists_def tolerated_def Let_def split: sum.splits)

lemma crd_create_events:
  assumes "ev \<in> set (snd (crd_create done v gvk gvr crd evs))"
  shows "ev \<in> set evs \<or> tolerated ev \<or>
         (snd (snd (fst (crd_create done v gvk gvr crd evs))) \<noteq> None \<and>
          (fst (snd ev) = PollCRD \<or> fst (snd ev) = Backoff
             \<longrightarrow> wait_error gvk (snd (snd (fst (crd_create done v gvk gvr crd evs))))))"
proof -
  let ?crd = "crd\<lparr>crdUID := [], crdResourceVersion := [], crdManagedFields := [],
             crdOwnerReferences := [], crdConditions := [],
             crdPreserveUnknownFields := False, crdConversion := None\<rparr>"
  let ?found = "find_version (gvkVersion gvk) (crdVersions ?crd)"
  let ?new = "?crd\<lparr>crdVersions := (case ?found of None \<Rightarrow> []
      | Some version \<Rightarrow> [version\<lparr>verServed := True, verStorage := True\<rparr>])\<rparr>"
  let ?created = "createCRD v ?new"
  obtain sd c r where ev: "ev = (sd, c, r)"
    by (metis surj_pair)
  show ?thesis
  proof (cases "?created \<noteq> None \<and> \<not> IsAlreadyExists (the ?created)")
    case True
    then show ?thesis
      using assms by (auto simp: crd_create_def Let_def tolerated_def ev)
  next
    case False
    obtain waited polls where w:
      "ExponentialBackoffWithContext done 2147483647 0 (crd_ready v (GroupResource_String gvr))
         = (waited, polls)"
      by (metis surj_pair)
    have evs': "snd (crd_create done v gvk gvr crd evs) = evs @ [(Virtual, CreateCRD, ?created)] @ polls"
      using False w by (auto simp: crd_create_def Let_def)
    have res: "snd (snd (fst (crd_create done v gvk gvr crd evs)))
        = (if waited \<noteq> None
           then Some (Wrapped (''failed to wait for CRD '' @ GroupVersionKind_String gvk @
                               '' to become ready'') (the waited))
           else None)"
      using False w by (auto simp: crd_create_def Let_def)
    consider "ev \<in> set evs" | "ev = (Virtual, CreateCRD, ?created)" | "ev \<in> set polls"
      using assms evs' by auto
    then show ?thesis
    proof cases
      case 1
      then show ?thesis by simp
    next
      case 2
      then have "tolerated ev"
        using False by (cases ?created) (auto simp: tolerated_def)
      then show ?thesis by simp
    next
      case 3
      show ?thesis
      proof (cases r)
        case None
        then show ?thesis by (simp add: tolerated_def ev)
      next
        case (Some e)
        have "waited \<noteq> None"
          using backoff_events [of sd c e "done" 2147483647 0 v "GroupResource_String gvr"] 3 w ev Some
          by simp
        then show ?thesis
          by (auto simp: res wait_error_def)
      qed
    qed
  qed
qed

text \<open>
  C7. The claim that \<open>EnsureCRDFromPhysicalCluster\<close> returns an error after every
  failed call fails: when the kind is in the virtual cluster already and the fetch of
  its type definition fails, the function returns no error. What holds: after any
  failed call other than that fetch, a not-found answer to the discovery in the
  virtual cluster, and an already-exists answer to the creation, the function returns
  an error; and after a failed poll or an interrupted wait, the error wraps the cause
  and names the kind.
\<close>

theorem EnsureCRD_surfaces_failures:
  assumes "ev \<in> set (snd (EnsureCRDFromPhysicalCluster done pConfig vConfig gvk))"
    and "\<not> tolerated ev"
  shows "snd (snd (fst (EnsureCRDFromPhysicalCluster done pConfig vConfig gvk))) \<noteq> None \<and>
         (fst (snd ev) = PollCRD \<or> fst (snd ev) = Backoff \<longrightarrow>
            wait_error gvk (snd (snd (fst (EnsureCRDFromPhysicalCluster done pConfig vConfig gvk)))))"
proof -
  obtain sd c r where ev: "ev = (sd, c, r)"
    by (metis surj_pair)
  obtain e where r: "r = Some e"
    using assms(2) ev by (cases r) (auto simp: tolerated_def)
  show ?thesis
  proof (cases "newClientset vConfig")
    case (Some e0)
    then show ?thesis
      using assms(1) by (auto simp: EnsureCRDFromPhysicalCluster_def)
  next
    case None
    obtain k evs where k: "KindExists Virtual vConfig gvk = (k, evs)"
      by (metis surj_pair)
    note ke = KindExists_events [OF k]
    show ?thesis
    proof (cases k)
      case (Inr api)
      then have "ev \<in> set ((Virtual, NewClientset, None) # evs) \<or> tolerated ev"
        using assms(1) None k
          crd_exists_events [of ev vConfig gvk api "(Virtual, NewClientset, None) # evs"]
        by (simp add: EnsureCRDFromPhysicalCluster_def)
      then show ?thesis
        using assms(2) ke Inr ev r by (auto simp: tolerated_def)
    next
      case (Inl ke0)
      show ?thesis
      proof (cases "IsNotFound ke0")
        case False
        then show ?thesis
          using assms(1) None k Inl ev r ke
          by (auto simp: EnsureCRDFromPhysicalCluster_def)
      next
        case True
        have evs_tol: "ev \<notin> set evs"
          using ke [of sd c e] assms(2) ev r Inl True by (auto simp: tolerated_def)
        obtain g evs' where g: "ConvertKindToResource Physical pConfig gvk = (g, evs')"
          by (metis surj_pair)
        note ce = ConvertKindToResource_events [OF g]
        show ?thesis
        proof (cases g)
          case gl: (Inl ge)
          then show ?thesis
            using assms(1) None k Inl True g ev r evs_tol ce [of sd c e]
            by (auto simp: EnsureCRDFromPhysicalCluster_def)
        next
          case gr: (Inr gvr)
          have evs'_ok: "ev \<notin> set evs'"
            using ce [of sd c e] gr ev r by auto
          show ?thesis
          proof (cases "newClientset pConfig")
            case (Some pe)
            then show ?thesis
              using assms(1) None k Inl True g gr ev r evs_tol evs'_ok
              by (auto simp: EnsureCRDFromPhysicalCluster_def)
          next
            case pn: None
            show ?thesis
            proof (cases "getCRD pConfig 0 (GroupResource_String gvr)")
              case pl: (Inl pe)
              then show ?thesis
                using assms(1) None k Inl True g gr pn ev r evs_tol evs'_ok
                by (auto simp: EnsureCRDFromPhysicalCluster_def)
            next
              case pr: (Inr crd)
              let ?evs = "(Virtual, NewClientset, None) # evs @ evs' @
                            [(Physical, NewClientset, None), (Physical, GetCRD, None)]"
              have run: "EnsureCRDFromPhysicalCluster done pConfig vConfig gvk
                  = crd_create done vConfig gvk gvr crd ?evs"
                using None k Inl True g gr pn pr by (simp add: EnsureCRDFromPhysicalCluster_def)
              have "ev \<notin> set ?evs"
                using evs_tol evs'_ok ev r by auto
              then show ?thesis
                using crd_create_events [of ev "done" vConfig gvk gvr crd ?evs] assms run
                by auto
            qed
          qed
        qed
      qed
    qed
  qed
qed


theorem EnsureCRD_swallows_counterexample:
  "EnsureCRDFromPhysicalCluster None physical_with_kind virtual_with_kind widget =
     ((False, False, None),
      [(Virtual, NewClientset, None), (Virtual, NewDiscoveryClient, None),
       (Virtual, ServerResources, None),
       (Virtual, GetCRD, Some (Failure ''connection refused''))])"
  by (simp add: EnsureCRDFromPhysicalCluster_def KindExists_def crd_exists_def
      virtual_with_kind_def widget_def widget_resource_def GroupVersion_String_def)

lemma wait_fails:
  "EnsureCRDFromPhysicalCluster None physical_with_kind virtual_without_kind widget =
     ((False, True,
       Some (Wrapped ''failed to wait for CRD example.com/v1, Kind=Widget to become ready''
              (Wrapped ''retrieve crd in virtual cluster'' (Failure ''connection refused'')))),
      [(Virtual, NewClientset, None), (Virtual, NewDiscoveryClient, None),
       (Virtual, ServerResources, None), (Physical, NewDiscoveryClient, None),
       (Physical, ServerResources, None), (Physical, NewClientset, None),
       (Physical, GetCRD, None), (Virtual, CreateCRD, None),
       (Virtual, PollCRD, Some (Failure ''connection refused''))])"
  by (simp add: EnsureCRDFromPhysicalCluster_def KindExists_def ConvertKindToResource_def
      crd_create_def virtual_without_kind_def physical_with_kind_def widget_def
      widget_resource_def widget_crd_def GroupVersion_String_def GroupResource_String_def
      Let_def,
      subst ExponentialBackoffWithContext.simps,
      simp add: crd_ready_def declares_status_def GroupVersionKind_String_def)

theorem EnsureCRD_surfaces_failures_witness:
  "(Virtual, PollCRD, Some (Failure ''connection refused''))
     \<in> set (snd (EnsureCRDFromPhysicalCluster None physical_with_kind virtual_without_kind widget)) \<and>
   \<not> tolerated (Virtual, PollCRD, Some (Failure ''connection refused'')) \<and>
   snd (snd (fst (EnsureCRDFromPhysicalCluster None physical_with_kind virtual_without_kind widget)))
     \<noteq> None \<and>
   wait_error widget
     (snd (snd (fst (EnsureCRDFromPhysicalCluster None physical_with_kind virtual_without_kind widget))))"
proof -
  let ?ev = "(Virtual, PollCRD, Some (Failure ''connection refused''))"
  have 1: "?ev \<in> set (snd (EnsureCRDFromPhysicalCluster None physical_with_kind
                              virtual_without_kind widget))"
    by (simp add: wait_fails)
  have 2: "\<not> tolerated ?ev"
    by (simp add: tolerated_def)
  show ?thesis
    using 1 2 EnsureCRD_surfaces_failures [OF 1 2] by simp
qed

end
